theory Spec2Isabelle
  imports Main
begin

section \<open>Data model\<close>

text \<open>
  The history service's \<open>transferQueueTaskExecutorBase\<close> and the worker-deployment
  activities, embedded as pure functions. Every call that leaves the executor (the
  matching client, the logger, the workflow cache, the delete manager, the helpers that
  update mutable state) has its result supplied by a record of the collaborators and
  leaves an \<open>event\<close> in a trace, in program order. A Go \<open>error\<close> result is an
  \<open>error option\<close> (\<open>None\<close> is \<open>nil\<close>); a \<open>(value, error)\<close> pair is
  \<open>error + value\<close>. The activities have no trace: they return their result, under a
  schedule of their goroutines.

  The 64-bit integers of the source (task ids, versions, durations in nanoseconds) are
  only compared, never added or multiplied, so they are \<open>int\<close>.
\<close>

datatype error =
    NotFound string
  | ErrDependencyTaskNotCompleted
  | ErrVersionConflict
  | OtherError string
  | NilPointerPanic

text \<open>
  \<open>NotFound\<close> is \<open>*serviceerror.NotFound\<close> with its message,
  \<open>ErrDependencyTaskNotCompleted\<close> is the variable of that name in the package
  \<open>consts\<close>, \<open>ErrVersionConflict\<close> is the spec's version-conflict error, and
  \<open>OtherError\<close> is any other error. \<open>NilPointerPanic\<close> is no error value of the
  program: it stands for the run-time panic of a field read through a nil pointer, so
  that the panic is a result of the model.
\<close>

text \<open>The type assertion \<open>err.(*serviceerror.NotFound)\<close>; it fails on \<open>nil\<close>.\<close>

fun isNotFound :: "error option \<Rightarrow> bool" where
  "isNotFound (Some (NotFound m)) = True"
| "isNotFound e = False"

record workflowExecution =
  WorkflowId :: string
  RunId :: string

datatype taskQueueKind = TASK_QUEUE_KIND_UNSPECIFIED | TASK_QUEUE_KIND_NORMAL | TASK_QUEUE_KIND_STICKY

record taskQueue =
  Name :: string
  Kind :: taskQueueKind

record vectorClock =
  ClusterId :: int
  ShardId :: int
  Clock :: int

text \<open>
  Modelled from the spec: \<open>vclock.NewVectorClock\<close> is not among the sources. The spec's
  vector clock is the triple (cluster id, shard id, task id).
\<close>

definition NewVectorClock :: "int \<Rightarrow> int \<Rightarrow> int \<Rightarrow> vectorClock" where
  "NewVectorClock clusterID shardID clock = \<lparr>ClusterId = clusterID, ShardId = shardID, Clock = clock\<rparr>"

text \<open>
  Modelled from the spec: the generated message \<open>TaskVersionDirective\<close> and its getter
  are not among the sources. The spec's version directive either asks for a build id
  from the assignment rules, or is exempt (the task carries a pinned version, or no
  directive at all); \<open>GetUseAssignmentRules\<close> is non-nil in the first case only.
\<close>

datatype buildIdDirective = UseAssignmentRules | AssignedBuildIdDirective string

record taskVersionDirective =
  BuildId :: "buildIdDirective option"

definition GetUseAssignmentRules :: "taskVersionDirective option \<Rightarrow> unit option" where
  "GetUseAssignmentRules directive =
     (case directive of
        None \<Rightarrow> None
      | Some d \<Rightarrow> (case BuildId d of Some UseAssignmentRules \<Rightarrow> Some () | _ \<Rightarrow> None))"

record priority =
  PriorityKey :: int

datatype transactionPolicy = TransactionPolicyActive | TransactionPolicyPassive

record activityTask =
  aNamespaceID :: string
  aWorkflowID :: string
  aRunID :: string
  aTaskQueue :: string
  aScheduledEventID :: int
  aTaskID :: int
  aStamp :: int

record workflowTask =
  wNamespaceID :: string
  wWorkflowID :: string
  wRunID :: string
  wScheduledEventID :: int
  wTaskID :: int

record addActivityTaskRequest =
  reqNamespaceId :: string
  reqExecution :: workflowExecution
  reqTaskQueue :: taskQueue
  reqScheduledEventId :: int
  reqScheduleToStartTimeout :: "int option"
  reqClock :: vectorClock
  reqVersionDirective :: "taskVersionDirective option"
  reqStamp :: int
  reqPriority :: "priority option"

record addWorkflowTaskRequest =
  wreqNamespaceId :: string
  wreqExecution :: workflowExecution
  wreqTaskQueue :: "taskQueue option"
  wreqScheduledEventId :: int
  wreqScheduleToStartTimeout :: "int option"
  wreqClock :: vectorClock
  wreqVersionDirective :: "taskVersionDirective option"
  wreqPriority :: "priority option"

record addTaskResponse =
  AssignedBuildId :: string

text \<open>\<open>durationpb.New\<close> always allocates a message: the result is never nil.\<close>

definition durationpbNew :: "int \<Rightarrow> int option" where
  "durationpbNew d = Some d"

record matchingRawClient =
  AddActivityTask :: "addActivityTaskRequest \<Rightarrow> error + addTaskResponse"
  AddWorkflowTask :: "addWorkflowTaskRequest \<Rightarrow> error + addTaskResponse"

subsection \<open>Queue state\<close>

datatype category = CategoryTransfer | CategoryOther nat

record queueState =
  ackLevel :: int
  ackedExceptions :: "int set"

record shardContext =
  GetClusterID :: int
  GetShardID :: int
  GetQueueState :: "category \<Rightarrow> queueState option"

record workflowKey =
  keyNamespaceID :: string
  keyWorkflowID :: string
  keyRunID :: string

record closeExecutionTask =
  WorkflowKey :: workflowKey
  TaskID :: int

text \<open>
  Modelled from the spec: \<open>queues.IsTaskAcked\<close> is not among the sources. The spec's
  data model has a task acked iff its id is strictly below the ack level, or is
  explicitly present in the acked-exceptions set.
\<close>

definition IsTaskAcked :: "closeExecutionTask \<Rightarrow> queueState \<Rightarrow> bool" where
  "IsTaskAcked task qs = (TaskID task < ackLevel qs \<or> TaskID task \<in> ackedExceptions qs)"

subsection \<open>Workflow context, mutable state, tasks\<close>

record workflowContext =
  GetWorkflowKey :: workflowKey

record executionInfo =
  CloseTransferTaskId :: int

record mutableState =
  GetExecutionInfo :: executionInfo
  GetCloseVersion :: "error + int"

text \<open>
  The interface \<open>tasks.Task\<close> as \<open>deleteExecution\<close> reads it. \<open>GetVersion\<close> is
  \<open>None\<close> for a task that does not implement \<open>tasks.HasVersion\<close>.
\<close>

record task =
  GetNamespaceID :: string
  GetWorkflowID :: string
  GetRunID :: string
  GetVersion :: "int option"

datatype archetype = ArchetypeAny | ArchetypeOther nat

datatype lockPriority = PriorityHigh | PriorityLow

record cache =
  GetOrCreateChasmEntity ::
    "string \<Rightarrow> workflowExecution \<Rightarrow> archetype \<Rightarrow> lockPriority \<Rightarrow> error + workflowContext"

record deleteManager =
  DeleteWorkflowExecution ::
    "string \<Rightarrow> workflowExecution \<Rightarrow> workflowContext \<Rightarrow> mutableState \<Rightarrow> int \<Rightarrow> error option"

text \<open>
  The fields of \<open>transferQueueTaskExecutorBase\<close> that the functions below use. The
  logger is the \<open>LogError\<close> event.
\<close>

record transferQueueTaskExecutorBase =
  shardContext :: shardContext
  cache :: cache
  matchingRawClient :: matchingRawClient
  workflowDeleteManager :: deleteManager

text \<open>
  Package-level declarations of the repository that are not among the sources, taken as
  parameters: the constant \<open>common.EmptyVersion\<close> and the results of the helpers
  \<open>loadMutableStateForTransferTask\<close>, \<open>updateIndependentActivityBuildId\<close> and
  \<open>initializeWorkflowAssignedBuildId\<close>.
\<close>

record package =
  EmptyVersion :: int
  loadMutableStateForTransferTask :: "workflowContext \<Rightarrow> task \<Rightarrow> error + mutableState"
  updateIndependentActivityBuildId :: "activityTask \<Rightarrow> string \<Rightarrow> transactionPolicy \<Rightarrow> error option"
  initializeWorkflowAssignedBuildId :: "workflowTask \<Rightarrow> string \<Rightarrow> transactionPolicy \<Rightarrow> error option"

datatype event =
    CallAddActivityTask addActivityTaskRequest
  | CallAddWorkflowTask addWorkflowTaskRequest
  | LogError string error
  | CallUpdateIndependentActivityBuildId activityTask string transactionPolicy
  | CallInitializeWorkflowAssignedBuildId workflowTask string transactionPolicy
  | CallGetOrCreateChasmEntity string workflowExecution archetype lockPriority
  | CallLoadMutableStateForTransferTask
  | CallDeleteWorkflowExecution string workflowExecution int
  | Release "error option"

section \<open>Task dispatch\<close>

text \<open>The error of a \<open>(resp, err)\<close> result.\<close>

definition errOf :: "error + 'a \<Rightarrow> error option" where
  "errOf r = (case r of Inl e \<Rightarrow> Some e | Inr _ \<Rightarrow> None)"

text \<open>
  The statement \<open>if _, isNotFound := err.(*serviceerror.NotFound); isNotFound { ...Error(msg, tag.Error(err)) }\<close>:
  what it writes to the log.
\<close>

definition notFoundLog :: "string \<Rightarrow> error option \<Rightarrow> event list" where
  "notFoundLog msg err =
     (case err of
        None \<Rightarrow> []
      | Some e \<Rightarrow> if isNotFound err then [LogError msg e] else [])"

text \<open>The request that \<open>pushActivity\<close> sends to \<open>AddActivityTask\<close>.\<close>

definition activityTaskRequest ::
  "transferQueueTaskExecutorBase \<Rightarrow> activityTask \<Rightarrow> int \<Rightarrow> taskVersionDirective option \<Rightarrow>
   priority option \<Rightarrow> addActivityTaskRequest" where
  "activityTaskRequest t task activityScheduleToStartTimeout directive prio =
     \<lparr>reqNamespaceId = aNamespaceID task,
      reqExecution = \<lparr>WorkflowId = aWorkflowID task, RunId = aRunID task\<rparr>,
      reqTaskQueue = \<lparr>Name = aTaskQueue task, Kind = TASK_QUEUE_KIND_NORMAL\<rparr>,
      reqScheduledEventId = aScheduledEventID task,
      reqScheduleToStartTimeout = durationpbNew activityScheduleToStartTimeout,
      reqClock = NewVectorClock (GetClusterID (shardContext t)) (GetShardID (shardContext t))
                   (aTaskID task),
      reqVersionDirective = directive,
      reqStamp = aStamp task,
      reqPriority = prio\<rparr>"

definition pushActivity ::
  "package \<Rightarrow> transferQueueTaskExecutorBase \<Rightarrow> activityTask \<Rightarrow> int \<Rightarrow>
   taskVersionDirective option \<Rightarrow> priority option \<Rightarrow> transactionPolicy \<Rightarrow>
   error option \<times> event list" where
  "pushActivity pkg t task activityScheduleToStartTimeout directive prio transactionPolicy =
     (let req = activityTaskRequest t task activityScheduleToStartTimeout directive prio;
          r = AddActivityTask (matchingRawClient t) req;
          err = errOf r;
          logged = notFoundLog ''Matching returned not found error for AddActivityTask'' err
      in case r of
           Inl e \<Rightarrow> (Some e, CallAddActivityTask req # logged)
         | Inr resp \<Rightarrow>
             if GetUseAssignmentRules directive = None
             then (None, CallAddActivityTask req # logged)
             else (updateIndependentActivityBuildId pkg task (AssignedBuildId resp) transactionPolicy,
                   CallAddActivityTask req # logged @
                   [CallUpdateIndependentActivityBuildId task (AssignedBuildId resp) transactionPolicy]))"

text \<open>
  The request that \<open>pushWorkflowTask\<close> sends to \<open>AddWorkflowTask\<close>: the local
  \<open>sst\<close> stays nil unless the timeout is positive.
\<close>

definition workflowTaskRequest ::
  "transferQueueTaskExecutorBase \<Rightarrow> workflowTask \<Rightarrow> taskQueue option \<Rightarrow> int \<Rightarrow>
   taskVersionDirective option \<Rightarrow> priority option \<Rightarrow> addWorkflowTaskRequest" where
  "workflowTaskRequest t task taskqueue workflowTaskScheduleToStartTimeout directive prio =
     (let sst = (if workflowTaskScheduleToStartTimeout > 0
                 then durationpbNew workflowTaskScheduleToStartTimeout
                 else None)
      in \<lparr>wreqNamespaceId = wNamespaceID task,
          wreqExecution = \<lparr>WorkflowId = wWorkflowID task, RunId = wRunID task\<rparr>,
          wreqTaskQueue = taskqueue,
          wreqScheduledEventId = wScheduledEventID task,
          wreqScheduleToStartTimeout = sst,
          wreqClock = NewVectorClock (GetClusterID (shardContext t)) (GetShardID (shardContext t))
                        (wTaskID task),
          wreqVersionDirective = directive,
          wreqPriority = prio\<rparr>)"

definition pushWorkflowTask ::
  "package \<Rightarrow> transferQueueTaskExecutorBase \<Rightarrow> workflowTask \<Rightarrow> taskQueue option \<Rightarrow> int \<Rightarrow>
   taskVersionDirective option \<Rightarrow> priority option \<Rightarrow> transactionPolicy \<Rightarrow>
   error option \<times> event list" where
  "pushWorkflowTask pkg t task taskqueue workflowTaskScheduleToStartTimeout directive prio transactionPolicy =
     (let req = workflowTaskRequest t task taskqueue workflowTaskScheduleToStartTimeout directive prio;
          r = AddWorkflowTask (matchingRawClient t) req;
          err = errOf r;
          logged = notFoundLog ''Matching returned not found error for AddWorkflowTask'' err
      in case r of
           Inl e \<Rightarrow> (Some e, CallAddWorkflowTask req # logged)
         | Inr resp \<Rightarrow>
             if GetUseAssignmentRules directive = None
             then (None, CallAddWorkflowTask req # logged)
             else (initializeWorkflowAssignedBuildId pkg task (AssignedBuildId resp) transactionPolicy,
                   CallAddWorkflowTask req # logged @
                   [CallInitializeWorkflowAssignedBuildId task (AssignedBuildId resp) transactionPolicy]))"

section \<open>Deletion\<close>

text \<open>
  Modelled from the spec: \<open>CheckTaskVersion\<close> is not among the sources. The spec's
  Version Consistency Checker takes the close version and the task's version: a task
  carrying the sentinel "no version" value always passes; otherwise the task's version
  must match exactly, and any mismatch fails with a dedicated version-conflict error.
\<close>

definition CheckTaskVersion :: "package \<Rightarrow> int \<Rightarrow> int \<Rightarrow> error option" where
  "CheckTaskVersion pkg version taskVersion =
     (if taskVersion = EmptyVersion pkg then None
      else if version = taskVersion then None
      else Some ErrVersionConflict)"

definition isCloseExecutionTaskPending ::
  "transferQueueTaskExecutorBase \<Rightarrow> mutableState \<Rightarrow> workflowContext \<Rightarrow> bool" where
  "isCloseExecutionTaskPending t ms weCtx =
     (let closeTransferTaskId = CloseTransferTaskId (GetExecutionInfo ms)
      in if closeTransferTaskId = 0 then False
         else case GetQueueState (shardContext t) CategoryTransfer of
                None \<Rightarrow> True
              | Some transferQueueState \<Rightarrow>
                  (let fakeCloseTransferTask =
                         \<lparr>WorkflowKey = GetWorkflowKey weCtx, TaskID = closeTransferTaskId\<rparr>
                   in \<not> IsTaskAcked fakeCloseTransferTask transferQueueState))"

text \<open>
  The body of \<open>deleteExecution\<close> after the \<open>defer\<close> statement: everything that runs
  while the workflow lock is held. The result is the value of \<open>retError\<close> at the
  \<open>return\<close>. The stage marker is passed to the deletion primitive by value; what the
  primitive writes back through the pointer is outside these functions.
\<close>

definition deleteExecutionLocked ::
  "package \<Rightarrow> transferQueueTaskExecutorBase \<Rightarrow> task \<Rightarrow> bool \<Rightarrow> int \<Rightarrow>
   workflowExecution \<Rightarrow> workflowContext \<Rightarrow> error option \<times> event list" where
  "deleteExecutionLocked pkg t task ensureNoPendingCloseTask stage workflowExecution weCtx =
     (case loadMutableStateForTransferTask pkg weCtx task of
        Inl err \<Rightarrow> (Some err, [CallLoadMutableStateForTransferTask])
      | Inr mutableState \<Rightarrow>
          if ensureNoPendingCloseTask \<and> isCloseExecutionTaskPending t mutableState weCtx
          then (Some ErrDependencyTaskNotCompleted, [CallLoadMutableStateForTransferTask])
          else
            (let taskVersion = (case GetVersion task of
                                  Some v \<Rightarrow> v
                                | None \<Rightarrow> EmptyVersion pkg);
                 versionErr =
                   (if taskVersion \<noteq> EmptyVersion pkg
                    then (case GetCloseVersion mutableState of
                            Inl err \<Rightarrow> Some err
                          | Inr closeVersion \<Rightarrow> CheckTaskVersion pkg closeVersion taskVersion)
                    else None)
             in case versionErr of
                  Some err \<Rightarrow> (Some err, [CallLoadMutableStateForTransferTask])
                | None \<Rightarrow>
                    (DeleteWorkflowExecution (workflowDeleteManager t) (GetNamespaceID task)
                       workflowExecution weCtx mutableState stage,
                     [CallLoadMutableStateForTransferTask,
                      CallDeleteWorkflowExecution (GetNamespaceID task) workflowExecution stage])))"

text \<open>
  \<open>deleteExecution\<close>: acquire the lock; if that fails, return its error (no release
  callback exists yet). Otherwise \<open>defer func() { release(retError) }()\<close> runs after the
  body, with the value the body returned.
\<close>

definition deleteExecution ::
  "package \<Rightarrow> transferQueueTaskExecutorBase \<Rightarrow> task \<Rightarrow> bool \<Rightarrow> int \<Rightarrow>
   error option \<times> event list" where
  "deleteExecution pkg t task ensureNoPendingCloseTask stage =
     (let workflowExecution = \<lparr>WorkflowId = GetWorkflowID task, RunId = GetRunID task\<rparr>;
          acquire = CallGetOrCreateChasmEntity (GetNamespaceID task) workflowExecution
                      ArchetypeAny PriorityLow
      in case GetOrCreateChasmEntity (cache t) (GetNamespaceID task) workflowExecution
                ArchetypeAny PriorityLow of
           Inl err \<Rightarrow> (Some err, [acquire])
         | Inr weCtx \<Rightarrow>
             (let (retError, trace) =
                    deleteExecutionLocked pkg t task ensureNoPendingCloseTask stage
                      workflowExecution weCtx
              in (retError, acquire # trace @ [Release retError])))"

fun isDeleteCall :: "event \<Rightarrow> bool" where
  "isDeleteCall (CallDeleteWorkflowExecution ns we stage) = True"
| "isDeleteCall ev = False"

fun isRelease :: "event \<Rightarrow> bool" where
  "isRelease (Release e) = True"
| "isRelease ev = False"

fun isDispatchCall :: "event \<Rightarrow> bool" where
  "isDispatchCall (CallAddActivityTask req) = True"
| "isDispatchCall (CallAddWorkflowTask req) = True"
| "isDispatchCall ev = False"

fun isLogError :: "event \<Rightarrow> bool" where
  "isLogError (LogError msg e) = True"
| "isLogError ev = False"

fun isMutableStateUpdate :: "event \<Rightarrow> bool" where
  "isMutableStateUpdate (CallUpdateIndependentActivityBuildId task b p) = True"
| "isMutableStateUpdate (CallInitializeWorkflowAssignedBuildId task b p) = True"
| "isMutableStateUpdate ev = False"

section \<open>Worker-deployment activities\<close>

text \<open>
  The messages of the version-sync activities. The ramp percentage is a 32-bit float
  that the activities only copy; its type is the parameter \<open>'p\<close>. A worker-deployment
  version is carried as a string.
\<close>

datatype taskQueueType =
    TASK_QUEUE_TYPE_UNSPECIFIED | TASK_QUEUE_TYPE_WORKFLOW | TASK_QUEUE_TYPE_ACTIVITY | TASK_QUEUE_TYPE_NEXUS

record 'p deploymentVersionData =
  dvdVersion :: "string option"
  dvdRoutingUpdateTime :: "int option"
  dvdRampingSinceTime :: "int option"
  dvdRampPercentage :: 'p

record 'p syncUserData =
  sudName :: string
  sudTypes :: "taskQueueType list"
  sudData :: "'p deploymentVersionData option"

datatype 'p syncOperation =
    ForgetVersionOp "string option"
  | UpdateVersionDataOp "'p deploymentVersionData option"

record 'p syncDeploymentUserDataRequest =
  sreqNamespaceId :: string
  sreqTaskQueue :: string
  sreqTaskQueueTypes :: "taskQueueType list"
  sreqOperation :: "'p syncOperation"

record syncDeploymentUserDataResponse =
  Version :: int

record 'p syncDeploymentVersionUserDataRequest =
  inVersion :: "string option"
  inSync :: "'p syncUserData list"
  inForgetVersion :: bool

record 'p syncVersionStateUpdateArgs =
  uaRoutingUpdateTime :: "int option"
  uaRampingSinceTime :: "int option"
  uaRampPercentage :: 'p

record 'p syncUnversionedRampActivityArgs =
  CurrentVersion :: string
  UpdateArgs :: "'p syncVersionStateUpdateArgs option"

record taskQueueInfo =
  tqiName :: string
  tqiType :: taskQueueType

record versionInfo =
  TaskQueueInfos :: "taskQueueInfo list"

record deploymentClient =
  DescribeVersion :: "string \<Rightarrow> string \<Rightarrow> bool \<Rightarrow> error + versionInfo"

text \<open>
  The matching client's \<open>SyncDeploymentUserData\<close>. Each goroutine of a fan-out makes
  one call; the first argument is the index of the goroutine, so that two calls with
  equal requests may still be answered differently.
\<close>

record 'p matchingClient =
  SyncDeploymentUserData ::
    "nat \<Rightarrow> 'p syncDeploymentUserDataRequest \<Rightarrow> error + syncDeploymentUserDataResponse"

text \<open>\<open>namespaceId\<close> is \<open>a.namespace.ID().String()\<close>.\<close>

record 'p Activities =
  namespaceId :: string
  deploymentClient :: deploymentClient
  matchingClient :: "'p matchingClient"

text \<open>
  The goroutines of a fan-out run concurrently. Their effects on the function's result
  are the updates of the map, which the mutex serialises in some order, and the sends on
  the unbuffered channel \<open>errs\<close>, which the main goroutine receives in some order. A
  schedule names both orders, as lists of goroutine indices; in a run of \<open>n\<close>
  goroutines each order is a permutation of \<open>0..<n\<close> (every goroutine sends exactly
  once, and the main goroutine returns only after \<open>n\<close> receives, by when every map
  update has happened). A goroutine whose call failed takes no lock: its place in
  \<open>lockOrder\<close> changes nothing.
\<close>

record schedule =
  lockOrder :: "nat list"
  recvOrder :: "nat list"

definition validSchedule :: "nat \<Rightarrow> schedule \<Rightarrow> bool" where
  "validSchedule n sched = (sort (lockOrder sched) = [0..<n] \<and> sort (recvOrder sched) = [0..<n])"

text \<open>\<open>cmp.Or(a, b)\<close>: the first of its arguments that is not the zero value.\<close>

definition cmpOr :: "error option \<Rightarrow> error option \<Rightarrow> error option" where
  "cmpOr a b = (case a of Some e \<Rightarrow> Some e | None \<Rightarrow> b)"

text \<open>The loop \<open>for range ... { err = cmp.Or(err, <-errs) }\<close>.\<close>

definition receiveErrs ::
  "error option \<Rightarrow> (error + syncDeploymentUserDataResponse) list \<Rightarrow> nat list \<Rightarrow> error option" where
  "receiveErrs err results order = foldl (\<lambda>err i. cmpOr err (errOf (results ! i))) err order"

text \<open>
  The statement under the lock, \<open>m[name] = max(m[name], res.Version)\<close>: a missing key
  reads as 0.
\<close>

definition recordMaxVersion :: "(string \<rightharpoonup> int) \<Rightarrow> string \<Rightarrow> int \<Rightarrow> (string \<rightharpoonup> int)" where
  "recordMaxVersion m name v = m(name \<mapsto> max (case m name of None \<Rightarrow> 0 | Some x \<Rightarrow> x) v)"

text \<open>The map after the goroutines' locked updates, starting from the empty map.\<close>

definition lockedUpdates ::
  "string list \<Rightarrow> (error + syncDeploymentUserDataResponse) list \<Rightarrow> nat list \<Rightarrow> (string \<rightharpoonup> int)" where
  "lockedUpdates names results order =
     foldl (\<lambda>m i. case results ! i of
                     Inl e \<Rightarrow> m
                   | Inr res \<Rightarrow> recordMaxVersion m (names ! i) (Version res))
       Map.empty order"

text \<open>The call that goroutine \<open>i\<close> of \<open>SyncUnversionedRamp\<close> makes.\<close>

definition rampCall ::
  "'p Activities \<Rightarrow> 'p syncUserData list \<Rightarrow> nat \<Rightarrow> error + syncDeploymentUserDataResponse" where
  "rampCall a taskQueueSyncs i =
     (let syncData = taskQueueSyncs ! i
      in SyncDeploymentUserData (matchingClient a) i
           \<lparr>sreqNamespaceId = namespaceId a,
            sreqTaskQueue = sudName syncData,
            sreqTaskQueueTypes = sudTypes syncData,
            sreqOperation = UpdateVersionDataOp (sudData syncData)\<rparr>)"

text \<open>The list \<open>taskQueueSyncs\<close> that \<open>SyncUnversionedRamp\<close> builds.\<close>

definition rampTaskQueueSyncs ::
  "versionInfo \<Rightarrow> 'p syncVersionStateUpdateArgs \<Rightarrow> 'p syncUserData list" where
  "rampTaskQueueSyncs currVersionInfo updateArgs =
     (let data = \<lparr>dvdVersion = None,
                  dvdRoutingUpdateTime = uaRoutingUpdateTime updateArgs,
                  dvdRampingSinceTime = uaRampingSinceTime updateArgs,
                  dvdRampPercentage = uaRampPercentage updateArgs\<rparr>
      in map (\<lambda>tqInfo. \<lparr>sudName = tqiName tqInfo, sudTypes = [tqiType tqInfo], sudData = Some data\<rparr>)
           (TaskQueueInfos currVersionInfo))"

definition rampResults ::
  "'p Activities \<Rightarrow> 'p syncUserData list \<Rightarrow> (error + syncDeploymentUserDataResponse) list" where
  "rampResults a taskQueueSyncs = map (rampCall a taskQueueSyncs) [0..<length taskQueueSyncs]"

definition SyncUnversionedRamp ::
  "'p Activities \<Rightarrow> 'p syncUnversionedRampActivityArgs \<Rightarrow> schedule \<Rightarrow> error + (string \<rightharpoonup> int)" where
  "SyncUnversionedRamp a input sched =
     (case DescribeVersion (deploymentClient a) (namespaceId a) (CurrentVersion input) False of
        Inl err \<Rightarrow> Inl err
      | Inr currVersionInfo \<Rightarrow>
          (case UpdateArgs input of
             None \<Rightarrow> Inl NilPointerPanic
           | Some updateArgs \<Rightarrow>
               (let taskQueueSyncs = rampTaskQueueSyncs currVersionInfo updateArgs;
                    results = rampResults a taskQueueSyncs;
                    maxVersionByTQName =
                      lockedUpdates (map sudName taskQueueSyncs) results (lockOrder sched);
                    err = receiveErrs None results (recvOrder sched)
                in case err of
                     Some e \<Rightarrow> Inl e
                   | None \<Rightarrow> Inr maxVersionByTQName)))"

text \<open>
  The call that goroutine \<open>i\<close> of \<open>SyncDeploymentVersionUserDataFromWorkerDeployment\<close>
  makes.
\<close>

definition syncVersionCall ::
  "'p Activities \<Rightarrow> 'p syncDeploymentVersionUserDataRequest \<Rightarrow> nat \<Rightarrow>
   error + syncDeploymentUserDataResponse" where
  "syncVersionCall a input i =
     (let syncData = inSync input ! i
      in if inForgetVersion input
         then SyncDeploymentUserData (matchingClient a) i
                \<lparr>sreqNamespaceId = namespaceId a,
                 sreqTaskQueue = sudName syncData,
                 sreqTaskQueueTypes = sudTypes syncData,
                 sreqOperation = ForgetVersionOp (inVersion input)\<rparr>
         else SyncDeploymentUserData (matchingClient a) i
                \<lparr>sreqNamespaceId = namespaceId a,
                 sreqTaskQueue = sudName syncData,
                 sreqTaskQueueTypes = sudTypes syncData,
                 sreqOperation = UpdateVersionDataOp (sudData syncData)\<rparr>)"

definition syncVersionResults ::
  "'p Activities \<Rightarrow> 'p syncDeploymentVersionUserDataRequest \<Rightarrow>
   (error + syncDeploymentUserDataResponse) list" where
  "syncVersionResults a input = map (syncVersionCall a input) [0..<length (inSync input)]"

definition SyncDeploymentVersionUserDataFromWorkerDeployment ::
  "'p Activities \<Rightarrow> 'p syncDeploymentVersionUserDataRequest \<Rightarrow> schedule \<Rightarrow>
   error + (string \<rightharpoonup> int)" where
  "SyncDeploymentVersionUserDataFromWorkerDeployment a input sched =
     (let results = syncVersionResults a input;
          maxVersionByName =
            lockedUpdates (map sudName (inSync input)) results (lockOrder sched);
          err = receiveErrs None results (recvOrder sched)
      in case err of
           Some e \<Rightarrow> Inl e
         | None \<Rightarrow> Inr maxVersionByName)"

text \<open>
  The versions that the successful calls reported for the queue \<open>name\<close>, in the order
  of the goroutines.
\<close>

definition versionsReported ::
  "string list \<Rightarrow> (error + syncDeploymentUserDataResponse) list \<Rightarrow> string \<Rightarrow> int list" where
  "versionsReported names results name =
     map (\<lambda>(n, r). Version (projr r)) (filter (\<lambda>(n, r). n = name \<and> \<not> isl r) (zip names results))"

text \<open>
  The mapping from each queue name for which a version was reported to the maximum of 0
  and the versions reported for it.
\<close>

definition maxVersionsReported ::
  "string list \<Rightarrow> (error + syncDeploymentUserDataResponse) list \<Rightarrow> (string \<rightharpoonup> int)" where
  "maxVersionsReported names results =
     (\<lambda>name. if versionsReported names results name = [] then None
              else Some (Max (set (0 # versionsReported names results name))))"

text \<open>\<open>TaskQueueMaxVersions[name]\<close> of an activity's response; \<open>None\<close> when the key is
  missing or the activity returned an error.\<close>

definition taskQueueMaxVersion :: "error + (string \<rightharpoonup> int) \<Rightarrow> string \<Rightarrow> int option" where
  "taskQueueMaxVersion r name = (case r of Inl e \<Rightarrow> None | Inr m \<Rightarrow> m name)"

text \<open>
  The versions that the successful calls with an index in \<open>I\<close> reported for the queue
  \<open>name\<close>.
\<close>

definition reportedSet ::
  "string list \<Rightarrow> (error + syncDeploymentUserDataResponse) list \<Rightarrow> nat set \<Rightarrow> string \<Rightarrow> int set" where
  "reportedSet names results I name =
     (\<lambda>i. Version (projr (results ! i))) ` {i \<in> I. \<not> isl (results ! i) \<and> names ! i = name}"

section \<open>Concrete collaborators\<close>

definition exampleQueueState :: queueState where
  "exampleQueueState = \<lparr>ackLevel = 50, ackedExceptions = {60}\<rparr>"

definition exampleShard :: shardContext where
  "exampleShard =
     \<lparr>GetClusterID = 1, GetShardID = 7,
      GetQueueState = (\<lambda>c. if c = CategoryTransfer then Some exampleQueueState else None)\<rparr>"

text \<open>A shard that reports no queue state for any category.\<close>

definition exampleShardWithoutQueueState :: shardContext where
  "exampleShardWithoutQueueState =
     \<lparr>GetClusterID = 1, GetShardID = 7, GetQueueState = (\<lambda>c. None)\<rparr>"

definition exampleWorkflowContext :: workflowContext where
  "exampleWorkflowContext =
     \<lparr>GetWorkflowKey = \<lparr>keyNamespaceID = ''ns1'', keyWorkflowID = ''wf1'', keyRunID = ''run1''\<rparr>\<rparr>"

text \<open>A matching service that answers every dispatch with build id \<open>b1\<close>.\<close>

definition acceptingMatching :: matchingRawClient where
  "acceptingMatching =
     \<lparr>AddActivityTask = (\<lambda>req. Inr \<lparr>AssignedBuildId = ''b1''\<rparr>),
      AddWorkflowTask = (\<lambda>req. Inr \<lparr>AssignedBuildId = ''b1''\<rparr>)\<rparr>"

text \<open>A matching service that answers every dispatch with "not found".\<close>

definition notFoundMatching :: matchingRawClient where
  "notFoundMatching =
     \<lparr>AddActivityTask = (\<lambda>req. Inl (NotFound ''task queue gone'')),
      AddWorkflowTask = (\<lambda>req. Inl (NotFound ''task queue gone''))\<rparr>"

definition exampleExecutor :: "matchingRawClient \<Rightarrow> transferQueueTaskExecutorBase" where
  "exampleExecutor m =
     \<lparr>shardContext = exampleShard,
      cache = \<lparr>GetOrCreateChasmEntity = (\<lambda>ns we a p. Inr exampleWorkflowContext)\<rparr>,
      matchingRawClient = m,
      workflowDeleteManager = \<lparr>DeleteWorkflowExecution = (\<lambda>ns we c ms stage. None)\<rparr>\<rparr>"

text \<open>
  A package whose mutable-state load answers with the given close-transfer task id and
  close version, and whose build-id helpers succeed.
\<close>

definition examplePackage :: "int \<Rightarrow> int \<Rightarrow> package" where
  "examplePackage closeTaskId closeVersion =
     \<lparr>EmptyVersion = 0,
      loadMutableStateForTransferTask =
        (\<lambda>c tk. Inr \<lparr>GetExecutionInfo = \<lparr>CloseTransferTaskId = closeTaskId\<rparr>,
                      GetCloseVersion = Inr closeVersion\<rparr>),
      updateIndependentActivityBuildId = (\<lambda>tk b p. None),
      initializeWorkflowAssignedBuildId = (\<lambda>tk b p. None)\<rparr>"

definition exampleActivityTask :: activityTask where
  "exampleActivityTask =
     \<lparr>aNamespaceID = ''ns1'', aWorkflowID = ''wf1'', aRunID = ''run1'', aTaskQueue = ''tq'',
      aScheduledEventID = 5, aTaskID = 42, aStamp = 0\<rparr>"

definition exampleWorkflowTask :: workflowTask where
  "exampleWorkflowTask =
     \<lparr>wNamespaceID = ''ns1'', wWorkflowID = ''wf1'', wRunID = ''run1'',
      wScheduledEventID = 5, wTaskID = 42\<rparr>"

definition exampleDeleteTask :: "int option \<Rightarrow> task" where
  "exampleDeleteTask v =
     \<lparr>GetNamespaceID = ''ns1'', GetWorkflowID = ''wf1'', GetRunID = ''run1'', GetVersion = v\<rparr>"

text \<open>
  Activities whose matching service answers every \<open>SyncDeploymentUserData\<close> call with
  the given version, and whose current version has the workflow and the activity queue
  of the name \<open>q\<close>.
\<close>

definition exampleActivities :: "int \<Rightarrow> unit Activities" where
  "exampleActivities v =
     \<lparr>namespaceId = ''ns1'',
      deploymentClient =
        \<lparr>DescribeVersion = (\<lambda>ns version reportStats.
           Inr \<lparr>TaskQueueInfos = [\<lparr>tqiName = ''q'', tqiType = TASK_QUEUE_TYPE_WORKFLOW\<rparr>,
                                   \<lparr>tqiName = ''q'', tqiType = TASK_QUEUE_TYPE_ACTIVITY\<rparr>]\<rparr>)\<rparr>,
      matchingClient = \<lparr>SyncDeploymentUserData = (\<lambda>i req. Inr \<lparr>Version = v\<rparr>)\<rparr>\<rparr>"

text \<open>Activities whose matching service answers goroutine \<open>i\<close> with version \<open>i + 3\<close>.\<close>

definition countingActivities :: "unit Activities" where
  "countingActivities =
     \<lparr>namespaceId = ''ns1'',
      deploymentClient =
        \<lparr>DescribeVersion = (\<lambda>ns version reportStats.
           Inr \<lparr>TaskQueueInfos = [\<lparr>tqiName = ''q'', tqiType = TASK_QUEUE_TYPE_WORKFLOW\<rparr>,
                                   \<lparr>tqiName = ''q'', tqiType = TASK_QUEUE_TYPE_ACTIVITY\<rparr>]\<rparr>)\<rparr>,
      matchingClient = \<lparr>SyncDeploymentUserData = (\<lambda>i req. Inr \<lparr>Version = int i + 3\<rparr>)\<rparr>\<rparr>"

definition exampleSyncRequest :: "unit syncDeploymentVersionUserDataRequest" where
  "exampleSyncRequest =
     \<lparr>inVersion = Some ''d.b1'',
      inSync = [\<lparr>sudName = ''q'', sudTypes = [TASK_QUEUE_TYPE_WORKFLOW], sudData = None\<rparr>,
                \<lparr>sudName = ''q'', sudTypes = [TASK_QUEUE_TYPE_ACTIVITY], sudData = None\<rparr>],
      inForgetVersion = False\<rparr>"

definition exampleRampArgs :: "unit syncUnversionedRampActivityArgs" where
  "exampleRampArgs =
     \<lparr>CurrentVersion = ''d.b1'',
      UpdateArgs = Some \<lparr>uaRoutingUpdateTime = None, uaRampingSinceTime = None, uaRampPercentage = ()\<rparr>\<rparr>"

definition exampleSchedule :: schedule where
  "exampleSchedule = \<lparr>lockOrder = [1, 0], recvOrder = [0, 1]\<rparr>"

definition useRules :: "taskVersionDirective option" where
  "useRules = Some \<lparr>BuildId = Some UseAssignmentRules\<rparr>"

section \<open>Properties of task dispatch\<close>

lemma notFoundLog_Some:
  "notFoundLog msg (Some e) = (if isNotFound (Some e) then [LogError msg e] else [])"
  by (simp add: notFoundLog_def)

lemma pushActivity_dispatch_failed:
  assumes "AddActivityTask (matchingRawClient t)
             (activityTaskRequest t task timeout directive prio) = Inl e"
  shows "pushActivity pkg t task timeout directive prio policy =
           (Some e, CallAddActivityTask (activityTaskRequest t task timeout directive prio) #
                    notFoundLog ''Matching returned not found error for AddActivityTask'' (Some e))"
  using assms by (simp add: pushActivity_def Let_def errOf_def)

lemma pushWorkflowTask_dispatch_failed:
  assumes "AddWorkflowTask (matchingRawClient t)
             (workflowTaskRequest t task tq timeout directive prio) = Inl e"
  shows "pushWorkflowTask pkg t task tq timeout directive prio policy =
           (Some e, CallAddWorkflowTask (workflowTaskRequest t task tq timeout directive prio) #
                    notFoundLog ''Matching returned not found error for AddWorkflowTask'' (Some e))"
  using assms by (simp add: pushWorkflowTask_def Let_def errOf_def)

lemma pushActivity_dispatched:
  assumes "AddActivityTask (matchingRawClient t)
             (activityTaskRequest t task timeout directive prio) = Inr resp"
  shows "pushActivity pkg t task timeout directive prio policy =
           (if GetUseAssignmentRules directive = None
            then (None, [CallAddActivityTask (activityTaskRequest t task timeout directive prio)])
            else (updateIndependentActivityBuildId pkg task (AssignedBuildId resp) policy,
                  [CallAddActivityTask (activityTaskRequest t task timeout directive prio),
                   CallUpdateIndependentActivityBuildId task (AssignedBuildId resp) policy]))"
  using assms by (simp add: pushActivity_def Let_def errOf_def notFoundLog_def)

lemma pushWorkflowTask_dispatched:
  assumes "AddWorkflowTask (matchingRawClient t)
             (workflowTaskRequest t task tq timeout directive prio) = Inr resp"
  shows "pushWorkflowTask pkg t task tq timeout directive prio policy =
           (if GetUseAssignmentRules directive = None
            then (None, [CallAddWorkflowTask (workflowTaskRequest t task tq timeout directive prio)])
            else (initializeWorkflowAssignedBuildId pkg task (AssignedBuildId resp) policy,
                  [CallAddWorkflowTask (workflowTaskRequest t task tq timeout directive prio),
                   CallInitializeWorkflowAssignedBuildId task (AssignedBuildId resp) policy]))"
  using assms by (simp add: pushWorkflowTask_def Let_def errOf_def notFoundLog_def)

lemmas example_defs =
  exampleExecutor_def examplePackage_def exampleShard_def exampleWorkflowContext_def
  exampleQueueState_def exampleShardWithoutQueueState_def
  acceptingMatching_def notFoundMatching_def exampleActivityTask_def exampleWorkflowTask_def
  exampleDeleteTask_def useRules_def

text \<open>
  C2, as the claim states it: when matching answers "not found", \<open>pushActivity\<close> and
  \<open>pushWorkflowTask\<close> would return success. They do not: with a matching service
  that answers "not found", both return that not-found error.
\<close>

theorem push_not_found_counterexample:
  "fst (pushActivity (examplePackage 0 0) (exampleExecutor notFoundMatching) exampleActivityTask
          0 None None TransactionPolicyActive) = Some (NotFound ''task queue gone'') \<and>
   fst (pushWorkflowTask (examplePackage 0 0) (exampleExecutor notFoundMatching) exampleWorkflowTask
          None 0 None None TransactionPolicyActive) = Some (NotFound ''task queue gone'')"
  by (simp add: pushActivity_def pushWorkflowTask_def Let_def errOf_def example_defs)

text \<open>
  C2, amended: whatever error the dispatch call returns, "not found" included,
  \<open>pushActivity\<close> and \<open>pushWorkflowTask\<close> return that same error to the caller. What the
  not-found case adds is one error line in the log; any other error is returned without
  a log line.
\<close>

theorem push_returns_dispatch_error_logging_not_found:
  "(AddActivityTask (matchingRawClient t) (activityTaskRequest t atask timeout directive prio) = Inl e \<longrightarrow>
      fst (pushActivity pkg t atask timeout directive prio policy) = Some e \<and>
      filter isLogError (snd (pushActivity pkg t atask timeout directive prio policy)) =
        (if isNotFound (Some e)
         then [LogError ''Matching returned not found error for AddActivityTask'' e] else [])) \<and>
   (AddWorkflowTask (matchingRawClient t) (workflowTaskRequest t wtask tq timeout directive prio) = Inl e \<longrightarrow>
      fst (pushWorkflowTask pkg t wtask tq timeout directive prio policy) = Some e \<and>
      filter isLogError (snd (pushWorkflowTask pkg t wtask tq timeout directive prio policy)) =
        (if isNotFound (Some e)
         then [LogError ''Matching returned not found error for AddWorkflowTask'' e] else []))"
proof (intro conjI impI)
  assume a: "AddActivityTask (matchingRawClient t) (activityTaskRequest t atask timeout directive prio) = Inl e"
  show "fst (pushActivity pkg t atask timeout directive prio policy) = Some e"
    by (simp add: pushActivity_dispatch_failed [OF a])
  show "filter isLogError (snd (pushActivity pkg t atask timeout directive prio policy)) =
        (if isNotFound (Some e)
         then [LogError ''Matching returned not found error for AddActivityTask'' e] else [])"
    by (simp add: pushActivity_dispatch_failed [OF a] notFoundLog_Some)
next
  assume w: "AddWorkflowTask (matchingRawClient t) (workflowTaskRequest t wtask tq timeout directive prio) = Inl e"
  show "fst (pushWorkflowTask pkg t wtask tq timeout directive prio policy) = Some e"
    by (simp add: pushWorkflowTask_dispatch_failed [OF w])
  show "filter isLogError (snd (pushWorkflowTask pkg t wtask tq timeout directive prio policy)) =
        (if isNotFound (Some e)
         then [LogError ''Matching returned not found error for AddWorkflowTask'' e] else [])"
    by (simp add: pushWorkflowTask_dispatch_failed [OF w] notFoundLog_Some)
qed

theorem push_returns_dispatch_error_logging_not_found_witness:
  "AddActivityTask (matchingRawClient (exampleExecutor notFoundMatching))
     (activityTaskRequest (exampleExecutor notFoundMatching) exampleActivityTask 0 None None) =
     Inl (NotFound ''task queue gone'') \<and>
   fst (pushActivity (examplePackage 0 0) (exampleExecutor notFoundMatching) exampleActivityTask
          0 None None TransactionPolicyActive) = Some (NotFound ''task queue gone'') \<and>
   filter isLogError
     (snd (pushActivity (examplePackage 0 0) (exampleExecutor notFoundMatching) exampleActivityTask
          0 None None TransactionPolicyActive)) =
     [LogError ''Matching returned not found error for AddActivityTask'' (NotFound ''task queue gone'')] \<and>
   AddWorkflowTask (matchingRawClient (exampleExecutor notFoundMatching))
     (workflowTaskRequest (exampleExecutor notFoundMatching) exampleWorkflowTask None 0 None None) =
     Inl (NotFound ''task queue gone'') \<and>
   fst (pushWorkflowTask (examplePackage 0 0) (exampleExecutor notFoundMatching) exampleWorkflowTask
          None 0 None None TransactionPolicyActive) = Some (NotFound ''task queue gone'') \<and>
   filter isLogError
     (snd (pushWorkflowTask (examplePackage 0 0) (exampleExecutor notFoundMatching) exampleWorkflowTask
          None 0 None None TransactionPolicyActive)) =
     [LogError ''Matching returned not found error for AddWorkflowTask'' (NotFound ''task queue gone'')]"
proof -
  have a: "AddActivityTask (matchingRawClient (exampleExecutor notFoundMatching))
     (activityTaskRequest (exampleExecutor notFoundMatching) exampleActivityTask 0 None None) =
     Inl (NotFound ''task queue gone'')"
    by (simp add: exampleExecutor_def notFoundMatching_def)
  have w: "AddWorkflowTask (matchingRawClient (exampleExecutor notFoundMatching))
     (workflowTaskRequest (exampleExecutor notFoundMatching) exampleWorkflowTask None 0 None None) =
     Inl (NotFound ''task queue gone'')"
    by (simp add: exampleExecutor_def notFoundMatching_def)
  show ?thesis
    using a w
      push_returns_dispatch_error_logging_not_found
        [of "exampleExecutor notFoundMatching" exampleActivityTask 0 None None
            "NotFound ''task queue gone''" "examplePackage 0 0" TransactionPolicyActive
            exampleWorkflowTask None]
    by simp
qed

text \<open>
  C4: after a successful dispatch, a directive whose \<open>GetUseAssignmentRules\<close> is nil
  makes the dispatcher return nil with no mutable-state update at all; otherwise the
  dispatcher makes exactly one mutable-state update, with the build id of the dispatch
  response: \<open>updateIndependentActivityBuildId\<close> for an activity task,
  \<open>initializeWorkflowAssignedBuildId\<close> for a workflow task, and returns its result.
\<close>

theorem push_build_id_update_after_dispatch:
  "(AddActivityTask (matchingRawClient t) (activityTaskRequest t atask timeout directive prio) = Inr resp \<longrightarrow>
      (if GetUseAssignmentRules directive = None
       then fst (pushActivity pkg t atask timeout directive prio policy) = None \<and>
            filter isMutableStateUpdate (snd (pushActivity pkg t atask timeout directive prio policy)) = []
       else fst (pushActivity pkg t atask timeout directive prio policy) =
              updateIndependentActivityBuildId pkg atask (AssignedBuildId resp) policy \<and>
            filter isMutableStateUpdate (snd (pushActivity pkg t atask timeout directive prio policy)) =
              [CallUpdateIndependentActivityBuildId atask (AssignedBuildId resp) policy])) \<and>
   (AddWorkflowTask (matchingRawClient t) (workflowTaskRequest t wtask tq timeout directive prio) = Inr resp \<longrightarrow>
      (if GetUseAssignmentRules directive = None
       then fst (pushWorkflowTask pkg t wtask tq timeout directive prio policy) = None \<and>
            filter isMutableStateUpdate (snd (pushWorkflowTask pkg t wtask tq timeout directive prio policy)) = []
       else fst (pushWorkflowTask pkg t wtask tq timeout directive prio policy) =
              initializeWorkflowAssignedBuildId pkg wtask (AssignedBuildId resp) policy \<and>
            filter isMutableStateUpdate (snd (pushWorkflowTask pkg t wtask tq timeout directive prio policy)) =
              [CallInitializeWorkflowAssignedBuildId wtask (AssignedBuildId resp) policy]))"
proof (intro conjI impI)
  assume a: "AddActivityTask (matchingRawClient t) (activityTaskRequest t atask timeout directive prio) = Inr resp"
  show "if GetUseAssignmentRules directive = None
       then fst (pushActivity pkg t atask timeout directive prio policy) = None \<and>
            filter isMutableStateUpdate (snd (pushActivity pkg t atask timeout directive prio policy)) = []
       else fst (pushActivity pkg t atask timeout directive prio policy) =
              updateIndependentActivityBuildId pkg atask (AssignedBuildId resp) policy \<and>
            filter isMutableStateUpdate (snd (pushActivity pkg t atask timeout directive prio policy)) =
              [CallUpdateIndependentActivityBuildId atask (AssignedBuildId resp) policy]"
    by (simp add: pushActivity_dispatched [OF a])
next
  assume w: "AddWorkflowTask (matchingRawClient t) (workflowTaskRequest t wtask tq timeout directive prio) = Inr resp"
  show "if GetUseAssignmentRules directive = None
       then fst (pushWorkflowTask pkg t wtask tq timeout directive prio policy) = None \<and>
            filter isMutableStateUpdate (snd (pushWorkflowTask pkg t wtask tq timeout directive prio policy)) = []
       else fst (pushWorkflowTask pkg t wtask tq timeout directive prio policy) =
              initializeWorkflowAssignedBuildId pkg wtask (AssignedBuildId resp) policy \<and>
            filter isMutableStateUpdate (snd (pushWorkflowTask pkg t wtask tq timeout directive prio policy)) =
              [CallInitializeWorkflowAssignedBuildId wtask (AssignedBuildId resp) policy]"
    by (simp add: pushWorkflowTask_dispatched [OF w])
qed

text \<open>
  The spec's scenarios A and B: task 42 as an activity task with no directive (no
  update, nil), and as a workflow task whose directive asks for assignment rules, the
  worker answering \<open>b1\<close> (one update, carrying \<open>b1\<close>).
\<close>

theorem push_build_id_update_after_dispatch_witness:
  "AddActivityTask (matchingRawClient (exampleExecutor acceptingMatching))
     (activityTaskRequest (exampleExecutor acceptingMatching) exampleActivityTask 0 None None) =
     Inr \<lparr>AssignedBuildId = ''b1''\<rparr> \<and>
   GetUseAssignmentRules None = None \<and>
   fst (pushActivity (examplePackage 0 0) (exampleExecutor acceptingMatching) exampleActivityTask
          0 None None TransactionPolicyActive) = None \<and>
   filter isMutableStateUpdate
     (snd (pushActivity (examplePackage 0 0) (exampleExecutor acceptingMatching) exampleActivityTask
          0 None None TransactionPolicyActive)) = [] \<and>
   AddWorkflowTask (matchingRawClient (exampleExecutor acceptingMatching))
     (workflowTaskRequest (exampleExecutor acceptingMatching) exampleWorkflowTask None 0 useRules None) =
     Inr \<lparr>AssignedBuildId = ''b1''\<rparr> \<and>
   GetUseAssignmentRules useRules = Some () \<and>
   filter isMutableStateUpdate
     (snd (pushWorkflowTask (examplePackage 0 0) (exampleExecutor acceptingMatching) exampleWorkflowTask
          None 0 useRules None TransactionPolicyActive)) =
     [CallInitializeWorkflowAssignedBuildId exampleWorkflowTask ''b1'' TransactionPolicyActive]"
proof -
  have a: "AddActivityTask (matchingRawClient (exampleExecutor acceptingMatching))
     (activityTaskRequest (exampleExecutor acceptingMatching) exampleActivityTask 0 None None) =
     Inr \<lparr>AssignedBuildId = ''b1''\<rparr>"
    by (simp add: exampleExecutor_def acceptingMatching_def)
  have w: "AddWorkflowTask (matchingRawClient (exampleExecutor acceptingMatching))
     (workflowTaskRequest (exampleExecutor acceptingMatching) exampleWorkflowTask None 0 useRules None) =
     Inr \<lparr>AssignedBuildId = ''b1''\<rparr>"
    by (simp add: exampleExecutor_def acceptingMatching_def)
  have n: "GetUseAssignmentRules None = None"
    by (simp add: GetUseAssignmentRules_def)
  have u: "GetUseAssignmentRules useRules = Some ()"
    by (simp add: GetUseAssignmentRules_def useRules_def)
  from a n
    push_build_id_update_after_dispatch
      [of "exampleExecutor acceptingMatching" exampleActivityTask 0 None None
          "\<lparr>AssignedBuildId = ''b1''\<rparr>" "examplePackage 0 0" TransactionPolicyActive
          exampleWorkflowTask None]
  have pa: "fst (pushActivity (examplePackage 0 0) (exampleExecutor acceptingMatching) exampleActivityTask
          0 None None TransactionPolicyActive) = None \<and>
   filter isMutableStateUpdate
     (snd (pushActivity (examplePackage 0 0) (exampleExecutor acceptingMatching) exampleActivityTask
          0 None None TransactionPolicyActive)) = []"
    by simp
  from w u
    push_build_id_update_after_dispatch
      [of "exampleExecutor acceptingMatching" exampleActivityTask 0 useRules None
          "\<lparr>AssignedBuildId = ''b1''\<rparr>" "examplePackage 0 0" TransactionPolicyActive
          exampleWorkflowTask None]
  have pw: "filter isMutableStateUpdate
     (snd (pushWorkflowTask (examplePackage 0 0) (exampleExecutor acceptingMatching) exampleWorkflowTask
          None 0 useRules None TransactionPolicyActive)) =
     [CallInitializeWorkflowAssignedBuildId exampleWorkflowTask ''b1'' TransactionPolicyActive]"
    by simp
  from a w n u pa pw show ?thesis by simp
qed

text \<open>
  C7: \<open>pushWorkflowTask\<close> calls \<open>AddWorkflowTask\<close> exactly once, and the request's
  \<open>ScheduleToStartTimeout\<close> is nil exactly when the caller's timeout is not strictly
  positive; otherwise it carries the caller's duration.
\<close>

theorem pushWorkflowTask_schedule_to_start_timeout:
  "filter isDispatchCall (snd (pushWorkflowTask pkg t task tq timeout directive prio policy)) =
     [CallAddWorkflowTask (workflowTaskRequest t task tq timeout directive prio)] \<and>
   (wreqScheduleToStartTimeout (workflowTaskRequest t task tq timeout directive prio) = None) =
     (timeout \<le> 0) \<and>
   wreqScheduleToStartTimeout (workflowTaskRequest t task tq timeout directive prio) =
     (if 0 < timeout then Some timeout else None)"
proof -
  have sent: "filter isDispatchCall (snd (pushWorkflowTask pkg t task tq timeout directive prio policy)) =
     [CallAddWorkflowTask (workflowTaskRequest t task tq timeout directive prio)]"
  proof (cases "AddWorkflowTask (matchingRawClient t) (workflowTaskRequest t task tq timeout directive prio)")
    case (Inl e)
    then show ?thesis
      by (simp add: pushWorkflowTask_dispatch_failed notFoundLog_Some)
  next
    case (Inr resp)
    then show ?thesis
      by (simp add: pushWorkflowTask_dispatched)
  qed
  have field: "wreqScheduleToStartTimeout (workflowTaskRequest t task tq timeout directive prio) =
     (if 0 < timeout then Some timeout else None)"
    by (simp add: workflowTaskRequest_def durationpbNew_def)
  from sent field show ?thesis by auto
qed

theorem pushWorkflowTask_schedule_to_start_timeout_witness:
  "wreqScheduleToStartTimeout
     (workflowTaskRequest (exampleExecutor acceptingMatching) exampleWorkflowTask None 0 None None) = None \<and>
   wreqScheduleToStartTimeout
     (workflowTaskRequest (exampleExecutor acceptingMatching) exampleWorkflowTask None (- 5) None None) = None \<and>
   wreqScheduleToStartTimeout
     (workflowTaskRequest (exampleExecutor acceptingMatching) exampleWorkflowTask None 10 None None) = Some 10"
  using
    pushWorkflowTask_schedule_to_start_timeout
      [of "examplePackage 0 0" "exampleExecutor acceptingMatching" exampleWorkflowTask None 0 None None
          TransactionPolicyActive]
    pushWorkflowTask_schedule_to_start_timeout
      [of "examplePackage 0 0" "exampleExecutor acceptingMatching" exampleWorkflowTask None "- 5" None None
          TransactionPolicyActive]
    pushWorkflowTask_schedule_to_start_timeout
      [of "examplePackage 0 0" "exampleExecutor acceptingMatching" exampleWorkflowTask None 10 None None
          TransactionPolicyActive]
  by simp

text \<open>
  C10: when the dispatch call returns an error, \<open>pushActivity\<close> and
  \<open>pushWorkflowTask\<close> return that error and make no mutable-state update, whatever the
  directive asks for.
\<close>

theorem push_failed_dispatch_no_update:
  "(AddActivityTask (matchingRawClient t) (activityTaskRequest t atask timeout directive prio) = Inl e \<longrightarrow>
      fst (pushActivity pkg t atask timeout directive prio policy) = Some e \<and>
      filter isMutableStateUpdate (snd (pushActivity pkg t atask timeout directive prio policy)) = []) \<and>
   (AddWorkflowTask (matchingRawClient t) (workflowTaskRequest t wtask tq timeout directive prio) = Inl e \<longrightarrow>
      fst (pushWorkflowTask pkg t wtask tq timeout directive prio policy) = Some e \<and>
      filter isMutableStateUpdate (snd (pushWorkflowTask pkg t wtask tq timeout directive prio policy)) = [])"
proof (intro conjI impI)
  assume a: "AddActivityTask (matchingRawClient t) (activityTaskRequest t atask timeout directive prio) = Inl e"
  show "fst (pushActivity pkg t atask timeout directive prio policy) = Some e"
    by (simp add: pushActivity_dispatch_failed [OF a])
  show "filter isMutableStateUpdate (snd (pushActivity pkg t atask timeout directive prio policy)) = []"
    by (simp add: pushActivity_dispatch_failed [OF a] notFoundLog_Some)
next
  assume w: "AddWorkflowTask (matchingRawClient t) (workflowTaskRequest t wtask tq timeout directive prio) = Inl e"
  show "fst (pushWorkflowTask pkg t wtask tq timeout directive prio policy) = Some e"
    by (simp add: pushWorkflowTask_dispatch_failed [OF w])
  show "filter isMutableStateUpdate (snd (pushWorkflowTask pkg t wtask tq timeout directive prio policy)) = []"
    by (simp add: pushWorkflowTask_dispatch_failed [OF w] notFoundLog_Some)
qed

theorem push_failed_dispatch_no_update_witness:
  "GetUseAssignmentRules useRules \<noteq> None \<and>
   AddActivityTask (matchingRawClient (exampleExecutor notFoundMatching))
     (activityTaskRequest (exampleExecutor notFoundMatching) exampleActivityTask 0 useRules None) =
     Inl (NotFound ''task queue gone'') \<and>
   fst (pushActivity (examplePackage 0 0) (exampleExecutor notFoundMatching) exampleActivityTask
          0 useRules None TransactionPolicyActive) = Some (NotFound ''task queue gone'') \<and>
   filter isMutableStateUpdate
     (snd (pushActivity (examplePackage 0 0) (exampleExecutor notFoundMatching) exampleActivityTask
          0 useRules None TransactionPolicyActive)) = [] \<and>
   AddWorkflowTask (matchingRawClient (exampleExecutor notFoundMatching))
     (workflowTaskRequest (exampleExecutor notFoundMatching) exampleWorkflowTask None 0 useRules None) =
     Inl (NotFound ''task queue gone'') \<and>
   fst (pushWorkflowTask (examplePackage 0 0) (exampleExecutor notFoundMatching) exampleWorkflowTask
          None 0 useRules None TransactionPolicyActive) = Some (NotFound ''task queue gone'') \<and>
   filter isMutableStateUpdate
     (snd (pushWorkflowTask (examplePackage 0 0) (exampleExecutor notFoundMatching) exampleWorkflowTask
          None 0 useRules None TransactionPolicyActive)) = []"
proof -
  have u: "GetUseAssignmentRules useRules \<noteq> None"
    by (simp add: GetUseAssignmentRules_def useRules_def)
  have a: "AddActivityTask (matchingRawClient (exampleExecutor notFoundMatching))
     (activityTaskRequest (exampleExecutor notFoundMatching) exampleActivityTask 0 useRules None) =
     Inl (NotFound ''task queue gone'')"
    by (simp add: exampleExecutor_def notFoundMatching_def)
  have w: "AddWorkflowTask (matchingRawClient (exampleExecutor notFoundMatching))
     (workflowTaskRequest (exampleExecutor notFoundMatching) exampleWorkflowTask None 0 useRules None) =
     Inl (NotFound ''task queue gone'')"
    by (simp add: exampleExecutor_def notFoundMatching_def)
  show ?thesis
    using u a w
      push_failed_dispatch_no_update
        [of "exampleExecutor notFoundMatching" exampleActivityTask 0 useRules None
            "NotFound ''task queue gone''" "examplePackage 0 0" TransactionPolicyActive
            exampleWorkflowTask None]
    by simp
qed

section \<open>Properties of deletion\<close>

lemma deleteExecution_lock_failed:
  assumes "GetOrCreateChasmEntity (cache t) (GetNamespaceID task)
             \<lparr>WorkflowId = GetWorkflowID task, RunId = GetRunID task\<rparr> ArchetypeAny PriorityLow = Inl err"
  shows "deleteExecution pkg t task ensure stage =
           (Some err, [CallGetOrCreateChasmEntity (GetNamespaceID task)
                         \<lparr>WorkflowId = GetWorkflowID task, RunId = GetRunID task\<rparr> ArchetypeAny PriorityLow])"
  using assms by (simp add: deleteExecution_def Let_def)

lemma deleteExecution_lock_held:
  assumes "GetOrCreateChasmEntity (cache t) (GetNamespaceID task)
             \<lparr>WorkflowId = GetWorkflowID task, RunId = GetRunID task\<rparr> ArchetypeAny PriorityLow = Inr weCtx"
  shows "deleteExecution pkg t task ensure stage =
           (fst (deleteExecutionLocked pkg t task ensure stage
                   \<lparr>WorkflowId = GetWorkflowID task, RunId = GetRunID task\<rparr> weCtx),
            CallGetOrCreateChasmEntity (GetNamespaceID task)
              \<lparr>WorkflowId = GetWorkflowID task, RunId = GetRunID task\<rparr> ArchetypeAny PriorityLow #
            snd (deleteExecutionLocked pkg t task ensure stage
                   \<lparr>WorkflowId = GetWorkflowID task, RunId = GetRunID task\<rparr> weCtx) @
            [Release (fst (deleteExecutionLocked pkg t task ensure stage
                   \<lparr>WorkflowId = GetWorkflowID task, RunId = GetRunID task\<rparr> weCtx))])"
  using assms by (simp add: deleteExecution_def Let_def split: prod.splits)

lemma deleteExecutionLocked_no_release:
  "filter isRelease (snd (deleteExecutionLocked pkg t task ensure stage we weCtx)) = []"
  by (simp add: deleteExecutionLocked_def Let_def split: sum.splits option.splits)

lemma deleteExecutionLocked_guarded:
  assumes "loadMutableStateForTransferTask pkg weCtx task = Inr ms"
    and "isCloseExecutionTaskPending t ms weCtx"
  shows "deleteExecutionLocked pkg t task True stage we weCtx =
           (Some ErrDependencyTaskNotCompleted, [CallLoadMutableStateForTransferTask])"
  using assms by (simp add: deleteExecutionLocked_def)

lemma deleteExecutionLocked_unversioned:
  assumes "loadMutableStateForTransferTask pkg weCtx task = Inr ms"
    and "\<not> (ensure \<and> isCloseExecutionTaskPending t ms weCtx)"
    and "GetVersion task = None \<or> GetVersion task = Some (EmptyVersion pkg)"
  shows "deleteExecutionLocked pkg t task ensure stage we weCtx =
           (DeleteWorkflowExecution (workflowDeleteManager t) (GetNamespaceID task) we weCtx ms stage,
            [CallLoadMutableStateForTransferTask,
             CallDeleteWorkflowExecution (GetNamespaceID task) we stage])"
  using assms by (auto simp: deleteExecutionLocked_def Let_def)

lemma deleteExecutionLocked_versioned:
  assumes "loadMutableStateForTransferTask pkg weCtx task = Inr ms"
    and "\<not> (ensure \<and> isCloseExecutionTaskPending t ms weCtx)"
    and "GetVersion task = Some v" and "v \<noteq> EmptyVersion pkg"
    and "GetCloseVersion ms = Inr c"
  shows "deleteExecutionLocked pkg t task ensure stage we weCtx =
           (if v = c
            then (DeleteWorkflowExecution (workflowDeleteManager t) (GetNamespaceID task) we weCtx ms stage,
                  [CallLoadMutableStateForTransferTask,
                   CallDeleteWorkflowExecution (GetNamespaceID task) we stage])
            else (Some ErrVersionConflict, [CallLoadMutableStateForTransferTask]))"
  using assms by (auto simp: deleteExecutionLocked_def Let_def CheckTaskVersion_def)

lemma isCloseExecutionTaskPending_legacy:
  assumes "CloseTransferTaskId (GetExecutionInfo ms) = 0"
  shows "\<not> isCloseExecutionTaskPending t ms weCtx"
  using assms by (simp add: isCloseExecutionTaskPending_def)

lemma isCloseExecutionTaskPending_no_queue_state:
  assumes "CloseTransferTaskId (GetExecutionInfo ms) \<noteq> 0"
    and "GetQueueState (shardContext t) CategoryTransfer = None"
  shows "isCloseExecutionTaskPending t ms weCtx"
  using assms by (simp add: isCloseExecutionTaskPending_def)

lemma isCloseExecutionTaskPending_not_acked:
  assumes "CloseTransferTaskId (GetExecutionInfo ms) \<noteq> 0"
    and "GetQueueState (shardContext t) CategoryTransfer = Some qs"
    and "ackLevel qs \<le> CloseTransferTaskId (GetExecutionInfo ms)"
    and "CloseTransferTaskId (GetExecutionInfo ms) \<notin> ackedExceptions qs"
  shows "isCloseExecutionTaskPending t ms weCtx"
  using assms by (simp add: isCloseExecutionTaskPending_def IsTaskAcked_def)

lemma example_lock:
  "GetOrCreateChasmEntity (cache (exampleExecutor m)) (GetNamespaceID (exampleDeleteTask v))
     \<lparr>WorkflowId = GetWorkflowID (exampleDeleteTask v), RunId = GetRunID (exampleDeleteTask v)\<rparr>
     ArchetypeAny PriorityLow = Inr exampleWorkflowContext"
  by (simp add: exampleExecutor_def)

lemma example_load:
  "loadMutableStateForTransferTask (examplePackage k c) exampleWorkflowContext (exampleDeleteTask v) =
     Inr \<lparr>GetExecutionInfo = \<lparr>CloseTransferTaskId = k\<rparr>, GetCloseVersion = Inr c\<rparr>"
  by (simp add: examplePackage_def)

text \<open>
  C1: with the lock held and the mutable state loaded, the guard enabled, a recorded
  \<open>CloseTransferTaskId = T\<close> with \<open>T \<noteq> 0\<close>, and a transfer queue state that does not
  show \<open>T\<close> as acked (ack level \<open>\<le> T\<close>, \<open>T\<close> not among the acked exceptions),
  \<open>deleteExecution\<close> returns \<open>ErrDependencyTaskNotCompleted\<close> and never calls
  \<open>DeleteWorkflowExecution\<close>.
\<close>

theorem deleteExecution_pending_close_guard:
  assumes lock: "GetOrCreateChasmEntity (cache t) (GetNamespaceID task)
             \<lparr>WorkflowId = GetWorkflowID task, RunId = GetRunID task\<rparr> ArchetypeAny PriorityLow = Inr weCtx"
    and load: "loadMutableStateForTransferTask pkg weCtx task = Inr ms"
    and "CloseTransferTaskId (GetExecutionInfo ms) = T" and "T \<noteq> 0"
    and "GetQueueState (shardContext t) CategoryTransfer = Some qs"
    and "ackLevel qs \<le> T" and "T \<notin> ackedExceptions qs"
  shows "fst (deleteExecution pkg t task True stage) = Some ErrDependencyTaskNotCompleted \<and>
         filter isDeleteCall (snd (deleteExecution pkg t task True stage)) = []"
proof -
  have "isCloseExecutionTaskPending t ms weCtx"
    using assms by (intro isCloseExecutionTaskPending_not_acked) simp_all
  then show ?thesis
    by (simp add: deleteExecution_lock_held [OF lock] deleteExecutionLocked_guarded [OF load])
qed

text \<open>
  The spec's scenario C: workflow (ns1, wf1, run1), \<open>CloseTransferTaskId = 100\<close>, guard
  enabled, ack level 50.
\<close>

theorem deleteExecution_pending_close_guard_witness:
  "GetQueueState (shardContext (exampleExecutor acceptingMatching)) CategoryTransfer =
     Some exampleQueueState \<and>
   ackLevel exampleQueueState \<le> 100 \<and> 100 \<notin> ackedExceptions exampleQueueState \<and>
   fst (deleteExecution (examplePackage 100 0) (exampleExecutor acceptingMatching)
          (exampleDeleteTask None) True 0) = Some ErrDependencyTaskNotCompleted \<and>
   filter isDeleteCall
     (snd (deleteExecution (examplePackage 100 0) (exampleExecutor acceptingMatching)
          (exampleDeleteTask None) True 0)) = []"
proof -
  have q: "GetQueueState (shardContext (exampleExecutor acceptingMatching)) CategoryTransfer =
     Some exampleQueueState"
    by (simp add: exampleExecutor_def exampleShard_def)
  have l: "ackLevel exampleQueueState \<le> 100" and x: "100 \<notin> ackedExceptions exampleQueueState"
    by (simp_all add: exampleQueueState_def)
  have k: "CloseTransferTaskId (GetExecutionInfo
             \<lparr>GetExecutionInfo = \<lparr>CloseTransferTaskId = 100\<rparr>, GetCloseVersion = Inr 0\<rparr>) = 100"
    by simp
  have n: "(100::int) \<noteq> 0" by simp
  from q l x deleteExecution_pending_close_guard [OF example_lock example_load k n q l x]
  show ?thesis by simp
qed

text \<open>
  C9: when the shard reports no queue state for the transfer category, a non-zero
  \<open>CloseTransferTaskId\<close> counts as still pending, and with the guard enabled
  \<open>deleteExecution\<close> returns \<open>ErrDependencyTaskNotCompleted\<close> without calling
  \<open>DeleteWorkflowExecution\<close>.
\<close>

theorem deleteExecution_no_queue_state_is_pending:
  assumes lock: "GetOrCreateChasmEntity (cache t) (GetNamespaceID task)
             \<lparr>WorkflowId = GetWorkflowID task, RunId = GetRunID task\<rparr> ArchetypeAny PriorityLow = Inr weCtx"
    and load: "loadMutableStateForTransferTask pkg weCtx task = Inr ms"
    and "CloseTransferTaskId (GetExecutionInfo ms) \<noteq> 0"
    and "GetQueueState (shardContext t) CategoryTransfer = None"
  shows "isCloseExecutionTaskPending t ms weCtx \<and>
         fst (deleteExecution pkg t task True stage) = Some ErrDependencyTaskNotCompleted \<and>
         filter isDeleteCall (snd (deleteExecution pkg t task True stage)) = []"
proof -
  have "isCloseExecutionTaskPending t ms weCtx"
    using assms by (intro isCloseExecutionTaskPending_no_queue_state) simp_all
  then show ?thesis
    by (simp add: deleteExecution_lock_held [OF lock] deleteExecutionLocked_guarded [OF load])
qed

theorem deleteExecution_no_queue_state_is_pending_witness:
  "GetQueueState
     (shardContext ((exampleExecutor acceptingMatching)\<lparr>shardContext := exampleShardWithoutQueueState\<rparr>))
     CategoryTransfer = None \<and>
   fst (deleteExecution (examplePackage 100 0)
          ((exampleExecutor acceptingMatching)\<lparr>shardContext := exampleShardWithoutQueueState\<rparr>)
          (exampleDeleteTask None) True 0) = Some ErrDependencyTaskNotCompleted \<and>
   filter isDeleteCall
     (snd (deleteExecution (examplePackage 100 0)
          ((exampleExecutor acceptingMatching)\<lparr>shardContext := exampleShardWithoutQueueState\<rparr>)
          (exampleDeleteTask None) True 0)) = []"
proof -
  have lock: "GetOrCreateChasmEntity
       (cache ((exampleExecutor acceptingMatching)\<lparr>shardContext := exampleShardWithoutQueueState\<rparr>))
       (GetNamespaceID (exampleDeleteTask None))
       \<lparr>WorkflowId = GetWorkflowID (exampleDeleteTask None), RunId = GetRunID (exampleDeleteTask None)\<rparr>
       ArchetypeAny PriorityLow = Inr exampleWorkflowContext"
    by (simp add: exampleExecutor_def)
  have q: "GetQueueState
     (shardContext ((exampleExecutor acceptingMatching)\<lparr>shardContext := exampleShardWithoutQueueState\<rparr>))
     CategoryTransfer = None"
    by (simp add: exampleShardWithoutQueueState_def)
  have k: "CloseTransferTaskId (GetExecutionInfo
             \<lparr>GetExecutionInfo = \<lparr>CloseTransferTaskId = 100\<rparr>, GetCloseVersion = Inr 0\<rparr>) \<noteq> 0"
    by simp
  from q deleteExecution_no_queue_state_is_pending [OF lock example_load k q]
  show ?thesis by simp
qed

text \<open>
  C6: whenever the workflow lock was acquired, the release callback runs exactly once,
  as the last thing \<open>deleteExecution\<close> does, on every path (an error from the
  mutable-state load, the pending-close guard, the version check or the deletion
  primitive, or success), and it is passed the very value \<open>deleteExecution\<close> returns.
\<close>

theorem deleteExecution_releases_lock_once:
  assumes lock: "GetOrCreateChasmEntity (cache t) (GetNamespaceID task)
             \<lparr>WorkflowId = GetWorkflowID task, RunId = GetRunID task\<rparr> ArchetypeAny PriorityLow = Inr weCtx"
  shows "filter isRelease (snd (deleteExecution pkg t task ensure stage)) =
           [Release (fst (deleteExecution pkg t task ensure stage))] \<and>
         last (snd (deleteExecution pkg t task ensure stage)) =
           Release (fst (deleteExecution pkg t task ensure stage))"
  by (simp add: deleteExecution_lock_held [OF lock] deleteExecutionLocked_no_release)

theorem deleteExecution_releases_lock_once_witness:
  "fst (deleteExecution (examplePackage 100 0) (exampleExecutor acceptingMatching)
          (exampleDeleteTask None) True 0) = Some ErrDependencyTaskNotCompleted \<and>
   filter isRelease
     (snd (deleteExecution (examplePackage 100 0) (exampleExecutor acceptingMatching)
          (exampleDeleteTask None) True 0)) = [Release (Some ErrDependencyTaskNotCompleted)] \<and>
   fst (deleteExecution (examplePackage 0 7) (exampleExecutor acceptingMatching)
          (exampleDeleteTask (Some 3)) True 0) = Some ErrVersionConflict \<and>
   filter isRelease
     (snd (deleteExecution (examplePackage 0 7) (exampleExecutor acceptingMatching)
          (exampleDeleteTask (Some 3)) True 0)) = [Release (Some ErrVersionConflict)]"
proof -
  have a: "fst (deleteExecution (examplePackage 100 0) (exampleExecutor acceptingMatching)
          (exampleDeleteTask None) True 0) = Some ErrDependencyTaskNotCompleted"
    by (simp add: deleteExecution_def deleteExecutionLocked_def isCloseExecutionTaskPending_def
        IsTaskAcked_def Let_def example_defs)
  have b: "fst (deleteExecution (examplePackage 0 7) (exampleExecutor acceptingMatching)
          (exampleDeleteTask (Some 3)) True 0) = Some ErrVersionConflict"
    by (simp add: deleteExecution_def deleteExecutionLocked_def isCloseExecutionTaskPending_def
        CheckTaskVersion_def Let_def example_defs)
  from a b
    deleteExecution_releases_lock_once
      [where t = "exampleExecutor acceptingMatching" and task = "exampleDeleteTask None"
         and pkg = "examplePackage 100 0" and ensure = True and stage = 0, OF example_lock]
    deleteExecution_releases_lock_once
      [where t = "exampleExecutor acceptingMatching" and task = "exampleDeleteTask (Some 3)"
         and pkg = "examplePackage 0 7" and ensure = True and stage = 0, OF example_lock]
  show ?thesis by simp
qed

text \<open>
  C5: when the loaded mutable state records \<open>CloseTransferTaskId = 0\<close>,
  \<open>isCloseExecutionTaskPending\<close> is false whatever the shard (and so whatever its queue
  state), and \<open>deleteExecution\<close> with the guard enabled does exactly what it does with the
  guard disabled: it goes on to the version check and the deletion primitive. For a task
  without a version that means the deletion primitive is called.
\<close>

theorem deleteExecution_legacy_close_task_bypasses_guard:
  assumes lock: "GetOrCreateChasmEntity (cache t) (GetNamespaceID task)
             \<lparr>WorkflowId = GetWorkflowID task, RunId = GetRunID task\<rparr> ArchetypeAny PriorityLow = Inr weCtx"
    and load: "loadMutableStateForTransferTask pkg weCtx task = Inr ms"
    and legacy: "CloseTransferTaskId (GetExecutionInfo ms) = 0"
  shows "isCloseExecutionTaskPending (t\<lparr>shardContext := sc\<rparr>) ms weCtx = False \<and>
         deleteExecution pkg (t\<lparr>shardContext := sc\<rparr>) task True stage =
           deleteExecution pkg t task False stage \<and>
         (GetVersion task = None \<longrightarrow>
            filter isDeleteCall (snd (deleteExecution pkg (t\<lparr>shardContext := sc\<rparr>) task True stage)) =
              [CallDeleteWorkflowExecution (GetNamespaceID task)
                 \<lparr>WorkflowId = GetWorkflowID task, RunId = GetRunID task\<rparr> stage])"
proof -
  have np: "\<And>t'. \<not> isCloseExecutionTaskPending t' ms weCtx"
    by (rule isCloseExecutionTaskPending_legacy [OF legacy])
  have lock': "GetOrCreateChasmEntity (cache (t\<lparr>shardContext := sc\<rparr>)) (GetNamespaceID task)
             \<lparr>WorkflowId = GetWorkflowID task, RunId = GetRunID task\<rparr> ArchetypeAny PriorityLow = Inr weCtx"
    using lock by simp
  have body: "deleteExecutionLocked pkg (t\<lparr>shardContext := sc\<rparr>) task True stage
                \<lparr>WorkflowId = GetWorkflowID task, RunId = GetRunID task\<rparr> weCtx =
              deleteExecutionLocked pkg t task False stage
                \<lparr>WorkflowId = GetWorkflowID task, RunId = GetRunID task\<rparr> weCtx"
    using load np by (simp add: deleteExecutionLocked_def)
  have eq: "deleteExecution pkg (t\<lparr>shardContext := sc\<rparr>) task True stage =
           deleteExecution pkg t task False stage"
    by (simp add: deleteExecution_lock_held [OF lock] deleteExecution_lock_held [OF lock'] body)
  have del: "GetVersion task = None \<Longrightarrow>
          filter isDeleteCall (snd (deleteExecution pkg t task False stage)) =
                 [CallDeleteWorkflowExecution (GetNamespaceID task)
                    \<lparr>WorkflowId = GetWorkflowID task, RunId = GetRunID task\<rparr> stage]"
    by (simp add: deleteExecution_lock_held [OF lock] deleteExecutionLocked_unversioned [OF load])
  from np eq del show ?thesis by simp
qed

theorem deleteExecution_legacy_close_task_bypasses_guard_witness:
  "GetVersion (exampleDeleteTask None) = None \<and>
   isCloseExecutionTaskPending
     ((exampleExecutor acceptingMatching)\<lparr>shardContext := exampleShardWithoutQueueState\<rparr>)
     \<lparr>GetExecutionInfo = \<lparr>CloseTransferTaskId = 0\<rparr>, GetCloseVersion = Inr 0\<rparr>
     exampleWorkflowContext = False \<and>
   filter isDeleteCall
     (snd (deleteExecution (examplePackage 0 0)
          ((exampleExecutor acceptingMatching)\<lparr>shardContext := exampleShardWithoutQueueState\<rparr>)
          (exampleDeleteTask None) True 0)) =
     [CallDeleteWorkflowExecution ''ns1'' \<lparr>WorkflowId = ''wf1'', RunId = ''run1''\<rparr> 0]"
proof -
  have v: "GetVersion (exampleDeleteTask None) = None"
    by (simp add: exampleDeleteTask_def)
  have k: "CloseTransferTaskId (GetExecutionInfo
             \<lparr>GetExecutionInfo = \<lparr>CloseTransferTaskId = 0\<rparr>, GetCloseVersion = Inr 0\<rparr>) = 0"
    by simp
  note th = deleteExecution_legacy_close_task_bypasses_guard
      [where t = "exampleExecutor acceptingMatching" and task = "exampleDeleteTask None"
         and pkg = "examplePackage 0 0" and sc = exampleShardWithoutQueueState and stage = 0,
       OF example_lock example_load k]
  note np = th [THEN conjunct1]
  note del = th [THEN conjunct2, THEN conjunct2, THEN mp, OF v]
  have "GetNamespaceID (exampleDeleteTask None) = ''ns1''"
    and "GetWorkflowID (exampleDeleteTask None) = ''wf1''"
    and "GetRunID (exampleDeleteTask None) = ''run1''"
    by (simp_all add: exampleDeleteTask_def)
  with v np del show ?thesis by simp
qed

text \<open>
  C3: with the lock held, the mutable state loaded and the pending-close guard passed:
  a task without a version, or with the version \<open>EmptyVersion\<close>, reaches the deletion
  primitive whatever the close version is (it is not even read); a task with a real
  version \<open>v\<close> reaches the deletion primitive iff \<open>v\<close> equals the close version \<open>c\<close>
  that the mutable state gives, and on a mismatch \<open>deleteExecution\<close> returns the
  version-conflict error.
\<close>

theorem deleteExecution_version_gate:
  assumes lock: "GetOrCreateChasmEntity (cache t) (GetNamespaceID task)
             \<lparr>WorkflowId = GetWorkflowID task, RunId = GetRunID task\<rparr> ArchetypeAny PriorityLow = Inr weCtx"
    and load: "loadMutableStateForTransferTask pkg weCtx task = Inr ms"
    and guard: "\<not> (ensure \<and> isCloseExecutionTaskPending t ms weCtx)"
  shows "(GetVersion task = None \<or> GetVersion task = Some (EmptyVersion pkg) \<longrightarrow>
            fst (deleteExecution pkg t task ensure stage) =
              DeleteWorkflowExecution (workflowDeleteManager t) (GetNamespaceID task)
                \<lparr>WorkflowId = GetWorkflowID task, RunId = GetRunID task\<rparr> weCtx ms stage \<and>
            filter isDeleteCall (snd (deleteExecution pkg t task ensure stage)) =
              [CallDeleteWorkflowExecution (GetNamespaceID task)
                 \<lparr>WorkflowId = GetWorkflowID task, RunId = GetRunID task\<rparr> stage]) \<and>
         (GetVersion task = Some v \<and> v \<noteq> EmptyVersion pkg \<and> GetCloseVersion ms = Inr c \<longrightarrow>
            (filter isDeleteCall (snd (deleteExecution pkg t task ensure stage)) \<noteq> []) = (v = c) \<and>
            (if v = c
             then fst (deleteExecution pkg t task ensure stage) =
                    DeleteWorkflowExecution (workflowDeleteManager t) (GetNamespaceID task)
                      \<lparr>WorkflowId = GetWorkflowID task, RunId = GetRunID task\<rparr> weCtx ms stage
             else fst (deleteExecution pkg t task ensure stage) = Some ErrVersionConflict))"
proof (intro conjI impI)
  assume u: "GetVersion task = None \<or> GetVersion task = Some (EmptyVersion pkg)"
  note b = deleteExecutionLocked_unversioned [OF load guard u]
  show "fst (deleteExecution pkg t task ensure stage) =
              DeleteWorkflowExecution (workflowDeleteManager t) (GetNamespaceID task)
                \<lparr>WorkflowId = GetWorkflowID task, RunId = GetRunID task\<rparr> weCtx ms stage"
    by (simp add: deleteExecution_lock_held [OF lock] b)
  show "filter isDeleteCall (snd (deleteExecution pkg t task ensure stage)) =
              [CallDeleteWorkflowExecution (GetNamespaceID task)
                 \<lparr>WorkflowId = GetWorkflowID task, RunId = GetRunID task\<rparr> stage]"
    by (simp add: deleteExecution_lock_held [OF lock] b)
next
  assume v: "GetVersion task = Some v \<and> v \<noteq> EmptyVersion pkg \<and> GetCloseVersion ms = Inr c"
  then have b: "deleteExecutionLocked pkg t task ensure stage
                  \<lparr>WorkflowId = GetWorkflowID task, RunId = GetRunID task\<rparr> weCtx =
           (if v = c
            then (DeleteWorkflowExecution (workflowDeleteManager t) (GetNamespaceID task)
                     \<lparr>WorkflowId = GetWorkflowID task, RunId = GetRunID task\<rparr> weCtx ms stage,
                  [CallLoadMutableStateForTransferTask,
                   CallDeleteWorkflowExecution (GetNamespaceID task)
                     \<lparr>WorkflowId = GetWorkflowID task, RunId = GetRunID task\<rparr> stage])
            else (Some ErrVersionConflict, [CallLoadMutableStateForTransferTask]))"
    using deleteExecutionLocked_versioned [OF load guard] by blast
  show "(filter isDeleteCall (snd (deleteExecution pkg t task ensure stage)) \<noteq> []) = (v = c)"
    by (simp add: deleteExecution_lock_held [OF lock] b)
  show "if v = c
             then fst (deleteExecution pkg t task ensure stage) =
                    DeleteWorkflowExecution (workflowDeleteManager t) (GetNamespaceID task)
                      \<lparr>WorkflowId = GetWorkflowID task, RunId = GetRunID task\<rparr> weCtx ms stage
             else fst (deleteExecution pkg t task ensure stage) = Some ErrVersionConflict"
    by (simp add: deleteExecution_lock_held [OF lock] b)
qed

text \<open>
  A task with version 3 against a workflow closed at version 3 (deleted), and against
  one closed at version 7 (version conflict, nothing deleted); a task without a version
  against the workflow closed at version 7 (deleted).
\<close>

theorem deleteExecution_version_gate_witness:
  "\<not> isCloseExecutionTaskPending (exampleExecutor acceptingMatching)
       \<lparr>GetExecutionInfo = \<lparr>CloseTransferTaskId = 0\<rparr>, GetCloseVersion = Inr 3\<rparr> exampleWorkflowContext \<and>
   (3::int) \<noteq> EmptyVersion (examplePackage 0 3) \<and>
   filter isDeleteCall
     (snd (deleteExecution (examplePackage 0 3) (exampleExecutor acceptingMatching)
          (exampleDeleteTask (Some 3)) True 0)) \<noteq> [] \<and>
   fst (deleteExecution (examplePackage 0 3) (exampleExecutor acceptingMatching)
          (exampleDeleteTask (Some 3)) True 0) = None \<and>
   filter isDeleteCall
     (snd (deleteExecution (examplePackage 0 7) (exampleExecutor acceptingMatching)
          (exampleDeleteTask (Some 3)) True 0)) = [] \<and>
   fst (deleteExecution (examplePackage 0 7) (exampleExecutor acceptingMatching)
          (exampleDeleteTask (Some 3)) True 0) = Some ErrVersionConflict \<and>
   filter isDeleteCall
     (snd (deleteExecution (examplePackage 0 7) (exampleExecutor acceptingMatching)
          (exampleDeleteTask None) True 0)) =
     [CallDeleteWorkflowExecution ''ns1'' \<lparr>WorkflowId = ''wf1'', RunId = ''run1''\<rparr> 0]"
proof -
  have g: "\<And>c. \<not> (True \<and> isCloseExecutionTaskPending (exampleExecutor acceptingMatching)
       \<lparr>GetExecutionInfo = \<lparr>CloseTransferTaskId = 0\<rparr>, GetCloseVersion = Inr c\<rparr> exampleWorkflowContext)"
    by (simp add: isCloseExecutionTaskPending_def)
  have e: "\<And>c. (3::int) \<noteq> EmptyVersion (examplePackage 0 c)"
    by (simp add: examplePackage_def)
  have d: "DeleteWorkflowExecution (workflowDeleteManager (exampleExecutor acceptingMatching)) = (\<lambda>ns we c ms stage. None)"
    by (simp add: exampleExecutor_def)
  have ids: "GetNamespaceID (exampleDeleteTask None) = ''ns1''"
    "GetWorkflowID (exampleDeleteTask None) = ''wf1''"
    "GetRunID (exampleDeleteTask None) = ''run1''"
    "GetVersion (exampleDeleteTask None) = None"
    "GetVersion (exampleDeleteTask (Some 3)) = Some 3"
    by (simp_all add: exampleDeleteTask_def)
  from g [of 3] e [of 3] e [of 7] d ids
    deleteExecution_version_gate
      [where t = "exampleExecutor acceptingMatching" and ensure = True and stage = 0
         and task = "exampleDeleteTask (Some 3)" and pkg = "examplePackage 0 3"
         and v = 3 and c = 3,
       OF example_lock example_load g]
    deleteExecution_version_gate
      [where t = "exampleExecutor acceptingMatching" and ensure = True and stage = 0
         and task = "exampleDeleteTask (Some 3)" and pkg = "examplePackage 0 7"
         and v = 3 and c = 7,
       OF example_lock example_load g]
    deleteExecution_version_gate
      [where t = "exampleExecutor acceptingMatching" and ensure = True and stage = 0
         and task = "exampleDeleteTask None" and pkg = "examplePackage 0 7"
         and v = 3 and c = 7,
       OF example_lock example_load g]
  show ?thesis
    by simp
qed

section \<open>Properties of the version-sync fan-out\<close>

lemma receiveErrs_first:
  "receiveErrs err results order =
     (case err of
        Some e \<Rightarrow> Some e
      | None \<Rightarrow> (case filter (\<lambda>i. isl (results ! i)) order of
                   [] \<Rightarrow> None
                 | i # rest \<Rightarrow> errOf (results ! i)))"
  unfolding receiveErrs_def
  by (induction order arbitrary: err)
     (auto simp: cmpOr_def errOf_def split: option.splits sum.splits list.splits)

lemma receiveErrs_None_iff:
  "receiveErrs err results order = None \<longleftrightarrow>
     err = None \<and> (\<forall>i\<in>set order. \<not> isl (results ! i))"
  unfolding receiveErrs_def
  by (induction order arbitrary: err)
     (auto simp: cmpOr_def errOf_def split: option.splits sum.splits)

lemma finite_reported: "finite I \<Longrightarrow> finite (reportedSet names results I name)"
  by (simp add: reportedSet_def)

lemma reported_insert:
  "reportedSet names results (insert x I) name =
     (if \<not> isl (results ! x) \<and> names ! x = name
      then insert (Version (projr (results ! x))) (reportedSet names results I name)
      else reportedSet names results I name)"
  by (auto simp: reportedSet_def)

lemma lockedUpdates_snoc:
  "lockedUpdates names results (xs @ [x]) =
     (case results ! x of
        Inl e \<Rightarrow> lockedUpdates names results xs
      | Inr res \<Rightarrow> recordMaxVersion (lockedUpdates names results xs) (names ! x) (Version res))"
  by (simp add: lockedUpdates_def split: sum.splits)

lemma lockedUpdates_value:
  "lockedUpdates names results order name =
     (if reportedSet names results (set order) name = {} then None
      else Some (Max (insert 0 (reportedSet names results (set order) name))))"
proof (induction order rule: rev_induct)
  case Nil
  then show ?case by (simp add: lockedUpdates_def reportedSet_def)
next
  case (snoc x xs)
  have fin: "finite (reportedSet names results (set xs) name)"
    by (simp add: finite_reported)
  show ?case
  proof (cases "results ! x")
    case (Inl e)
    then show ?thesis
      using snoc by (simp add: lockedUpdates_snoc reported_insert)
  next
    case (Inr res)
    show ?thesis
    proof (cases "names ! x = name")
      case False
      then show ?thesis
        using snoc Inr by (simp add: lockedUpdates_snoc reported_insert recordMaxVersion_def)
    next
      case True
      show ?thesis
      proof (cases "reportedSet names results (set xs) name = {}")
        case empty: True
        then show ?thesis
          using snoc Inr True
          by (simp add: lockedUpdates_snoc reported_insert recordMaxVersion_def)
      next
        case nonempty: False
        then show ?thesis
          using snoc Inr True fin
          by (simp add: lockedUpdates_snoc reported_insert recordMaxVersion_def
              insert_commute max.commute max.left_commute)
      qed
    qed
  qed
qed


lemma set_versionsReported:
  assumes "length names = length results"
  shows "set (versionsReported names results name) =
           reportedSet names results {0..<length results} name"
  using assms
  by (auto simp: versionsReported_def reportedSet_def set_zip image_iff)

lemma validSchedule_sets:
  assumes "validSchedule n sched"
  shows "set (lockOrder sched) = {0..<n}" and "set (recvOrder sched) = {0..<n}"
proof -
  have "set (sort (lockOrder sched)) = set [0..<n]" "set (sort (recvOrder sched)) = set [0..<n]"
    using assms by (simp_all add: validSchedule_def)
  then show "set (lockOrder sched) = {0..<n}" and "set (recvOrder sched) = {0..<n}"
    by simp_all
qed

lemma lockedUpdates_all:
  assumes "length names = length results" and "set order = {0..<length results}"
  shows "lockedUpdates names results order =
           (\<lambda>name. if versionsReported names results name = [] then None
                    else Some (Max (set (0 # versionsReported names results name))))"
proof
  fix name
  have "set (versionsReported names results name) = reportedSet names results (set order) name"
    using assms by (simp add: set_versionsReported)
  then show "lockedUpdates names results order name =
           (if versionsReported names results name = [] then None
                    else Some (Max (set (0 # versionsReported names results name))))"
    by (simp add: lockedUpdates_value flip: set_empty)
qed


lemma list_ex_isl_nth:
  "list_ex isl results = (\<exists>i<length results. isl (results ! i))"
  by (metis list_ex_iff in_set_conv_nth)

lemma fanOut_error_iff:
  assumes "set ro = {0..<length results}"
  shows "(receiveErrs None results ro = None) = (\<not> list_ex isl results)"
  using assms by (auto simp: receiveErrs_None_iff list_ex_isl_nth)

lemma fanOut_first_error:
  assumes "set ro = {0..<length results}" and "list_ex isl results"
  shows "receiveErrs None results ro =
           Some (projl (results ! hd (filter (\<lambda>i. isl (results ! i)) ro)))"
proof -
  obtain i where "i \<in> set ro" "isl (results ! i)"
    using assms by (auto simp: list_ex_isl_nth)
  then have "filter (\<lambda>i. isl (results ! i)) ro \<noteq> []"
    by (auto simp: filter_empty_conv)
  then obtain j rest where f: "filter (\<lambda>i. isl (results ! i)) ro = j # rest"
    by (cases "filter (\<lambda>i. isl (results ! i)) ro") auto
  have "j \<in> set (filter (\<lambda>i. isl (results ! i)) ro)"
    by (simp add: f)
  then have "isl (results ! j)"
    by simp
  with f show ?thesis
    by (auto simp: receiveErrs_first errOf_def split: sum.splits)
qed

lemma SyncDeploymentVersionUserDataFromWorkerDeployment_fan_out:
  assumes v: "validSchedule (length (inSync input)) sched"
  shows "isl (SyncDeploymentVersionUserDataFromWorkerDeployment a input sched) =
           list_ex isl (syncVersionResults a input)"
    and "list_ex isl (syncVersionResults a input) \<Longrightarrow>
           SyncDeploymentVersionUserDataFromWorkerDeployment a input sched =
             Inl (projl (syncVersionResults a input !
                    hd (filter (\<lambda>i. isl (syncVersionResults a input ! i)) (recvOrder sched))))"
    and "\<not> list_ex isl (syncVersionResults a input) \<Longrightarrow>
           SyncDeploymentVersionUserDataFromWorkerDeployment a input sched =
             Inr (maxVersionsReported (map sudName (inSync input)) (syncVersionResults a input))"
proof -
  have len: "length (map sudName (inSync input)) = length (syncVersionResults a input)"
    by (simp add: syncVersionResults_def)
  have lo: "set (lockOrder sched) = {0..<length (syncVersionResults a input)}"
    and ro: "set (recvOrder sched) = {0..<length (syncVersionResults a input)}"
    using validSchedule_sets [OF v] by (simp_all add: syncVersionResults_def)
  show "isl (SyncDeploymentVersionUserDataFromWorkerDeployment a input sched) =
           list_ex isl (syncVersionResults a input)"
    using fanOut_error_iff [OF ro]
    by (auto simp: SyncDeploymentVersionUserDataFromWorkerDeployment_def Let_def split: option.splits)
  show "SyncDeploymentVersionUserDataFromWorkerDeployment a input sched =
             Inl (projl (syncVersionResults a input !
                    hd (filter (\<lambda>i. isl (syncVersionResults a input ! i)) (recvOrder sched))))"
    if "list_ex isl (syncVersionResults a input)"
    using fanOut_first_error [OF ro that]
    by (simp add: SyncDeploymentVersionUserDataFromWorkerDeployment_def Let_def)
  show "SyncDeploymentVersionUserDataFromWorkerDeployment a input sched =
             Inr (maxVersionsReported (map sudName (inSync input)) (syncVersionResults a input))"
    if "\<not> list_ex isl (syncVersionResults a input)"
    using fanOut_error_iff [OF ro] that lockedUpdates_all [OF len lo]
    by (simp add: SyncDeploymentVersionUserDataFromWorkerDeployment_def Let_def maxVersionsReported_def)
qed

lemma length_rampTaskQueueSyncs:
  "length (rampTaskQueueSyncs info updateArgs) = length (TaskQueueInfos info)"
  by (simp add: rampTaskQueueSyncs_def)

lemma SyncUnversionedRamp_fan_out:
  assumes d: "DescribeVersion (deploymentClient a) (namespaceId a) (CurrentVersion input) False = Inr info"
    and u: "UpdateArgs input = Some updateArgs"
    and v: "validSchedule (length (TaskQueueInfos info)) sched"
  shows "isl (SyncUnversionedRamp a input sched) =
           list_ex isl (rampResults a (rampTaskQueueSyncs info updateArgs))"
    and "list_ex isl (rampResults a (rampTaskQueueSyncs info updateArgs)) \<Longrightarrow>
           SyncUnversionedRamp a input sched =
             Inl (projl (rampResults a (rampTaskQueueSyncs info updateArgs) !
                    hd (filter (\<lambda>i. isl (rampResults a (rampTaskQueueSyncs info updateArgs) ! i))
                          (recvOrder sched))))"
    and "\<not> list_ex isl (rampResults a (rampTaskQueueSyncs info updateArgs)) \<Longrightarrow>
           SyncUnversionedRamp a input sched =
             Inr (maxVersionsReported (map sudName (rampTaskQueueSyncs info updateArgs))
                    (rampResults a (rampTaskQueueSyncs info updateArgs)))"
proof -
  let ?syncs = "rampTaskQueueSyncs info updateArgs"
  have len: "length (map sudName ?syncs) = length (rampResults a ?syncs)"
    by (simp add: rampResults_def)
  have lo: "set (lockOrder sched) = {0..<length (rampResults a ?syncs)}"
    and ro: "set (recvOrder sched) = {0..<length (rampResults a ?syncs)}"
    using validSchedule_sets [OF v] by (simp_all add: rampResults_def length_rampTaskQueueSyncs)
  show "isl (SyncUnversionedRamp a input sched) = list_ex isl (rampResults a ?syncs)"
    using fanOut_error_iff [OF ro] d u
    by (auto simp: SyncUnversionedRamp_def Let_def split: option.splits)
  show "SyncUnversionedRamp a input sched =
             Inl (projl (rampResults a ?syncs !
                    hd (filter (\<lambda>i. isl (rampResults a ?syncs ! i)) (recvOrder sched))))"
    if "list_ex isl (rampResults a ?syncs)"
    using fanOut_first_error [OF ro that] d u
    by (simp add: SyncUnversionedRamp_def Let_def)
  show "SyncUnversionedRamp a input sched =
             Inr (maxVersionsReported (map sudName ?syncs) (rampResults a ?syncs))"
    if "\<not> list_ex isl (rampResults a ?syncs)"
    using fanOut_error_iff [OF ro] that lockedUpdates_all [OF len lo] d u
    by (simp add: SyncUnversionedRamp_def Let_def maxVersionsReported_def)
qed

lemma maxVersionsReported_nonneg:
  assumes "versionsReported names results name \<noteq> []"
    and "0 \<le> Max (set (versionsReported names results name))"
  shows "maxVersionsReported names results name =
           Some (Max (set (versionsReported names results name)))"
  using assms by (simp add: maxVersionsReported_def)

lemmas activity_defs =
  SyncDeploymentVersionUserDataFromWorkerDeployment_def SyncUnversionedRamp_def
  syncVersionResults_def syncVersionCall_def rampResults_def rampCall_def rampTaskQueueSyncs_def
  lockedUpdates_def receiveErrs_def recordMaxVersion_def cmpOr_def errOf_def
  taskQueueMaxVersion_def versionsReported_def validSchedule_def
  exampleActivities_def countingActivities_def exampleSyncRequest_def exampleRampArgs_def
  exampleSchedule_def

text \<open>
  C8, as the claim states it: when all calls succeed, the activity would return the
  mapping from each queue name to the maximum version reported for it. With a matching
  service that reports version \<open>-1\<close> for the queue \<open>q\<close>, both activities map \<open>q\<close>
  to 0: a missing key of the Go map reads as 0, and 0 takes part in the maximum.
\<close>

theorem sync_fan_out_max_version_counterexample:
  "validSchedule (length (inSync exampleSyncRequest)) exampleSchedule \<and>
   \<not> list_ex isl (syncVersionResults (exampleActivities (- 1)) exampleSyncRequest) \<and>
   versionsReported (map sudName (inSync exampleSyncRequest))
     (syncVersionResults (exampleActivities (- 1)) exampleSyncRequest) ''q'' = [- 1, - 1] \<and>
   taskQueueMaxVersion
     (SyncDeploymentVersionUserDataFromWorkerDeployment (exampleActivities (- 1)) exampleSyncRequest
        exampleSchedule) ''q'' = Some 0 \<and>
   taskQueueMaxVersion
     (SyncUnversionedRamp (exampleActivities (- 1)) exampleRampArgs exampleSchedule) ''q'' = Some 0"
  by (simp add: activity_defs Let_def)

text \<open>
  C8, amended: in every schedule of the fan-out (for \<open>SyncUnversionedRamp\<close>: once
  \<open>DescribeVersion\<close> has succeeded and the update arguments are present), the activity
  returns an error iff at least one per-queue call returned an error, and then it is
  the error of the failed call whose send the main goroutine received first; when all
  calls succeed, it returns the mapping from each queue name to the maximum of 0 and
  the versions reported for that queue.
\<close>

theorem sync_fan_out_first_error_or_max_versions:
  "(validSchedule (length (inSync input)) sched \<longrightarrow>
      isl (SyncDeploymentVersionUserDataFromWorkerDeployment a input sched) =
        list_ex isl (syncVersionResults a input) \<and>
      (list_ex isl (syncVersionResults a input) \<longrightarrow>
         SyncDeploymentVersionUserDataFromWorkerDeployment a input sched =
           Inl (projl (syncVersionResults a input !
                  hd (filter (\<lambda>i. isl (syncVersionResults a input ! i)) (recvOrder sched))))) \<and>
      (\<not> list_ex isl (syncVersionResults a input) \<longrightarrow>
         SyncDeploymentVersionUserDataFromWorkerDeployment a input sched =
           Inr (maxVersionsReported (map sudName (inSync input)) (syncVersionResults a input)))) \<and>
   (DescribeVersion (deploymentClient a) (namespaceId a) (CurrentVersion rinput) False = Inr info \<and>
    UpdateArgs rinput = Some updateArgs \<and>
    validSchedule (length (TaskQueueInfos info)) rsched \<longrightarrow>
      isl (SyncUnversionedRamp a rinput rsched) =
        list_ex isl (rampResults a (rampTaskQueueSyncs info updateArgs)) \<and>
      (list_ex isl (rampResults a (rampTaskQueueSyncs info updateArgs)) \<longrightarrow>
         SyncUnversionedRamp a rinput rsched =
           Inl (projl (rampResults a (rampTaskQueueSyncs info updateArgs) !
                  hd (filter (\<lambda>i. isl (rampResults a (rampTaskQueueSyncs info updateArgs) ! i))
                        (recvOrder rsched))))) \<and>
      (\<not> list_ex isl (rampResults a (rampTaskQueueSyncs info updateArgs)) \<longrightarrow>
         SyncUnversionedRamp a rinput rsched =
           Inr (maxVersionsReported (map sudName (rampTaskQueueSyncs info updateArgs))
                  (rampResults a (rampTaskQueueSyncs info updateArgs)))))"
proof (intro conjI impI)
  assume v: "validSchedule (length (inSync input)) sched"
  note f = SyncDeploymentVersionUserDataFromWorkerDeployment_fan_out [OF v, of a]
  show "isl (SyncDeploymentVersionUserDataFromWorkerDeployment a input sched) =
        list_ex isl (syncVersionResults a input)"
    by (rule f(1))
  show "SyncDeploymentVersionUserDataFromWorkerDeployment a input sched =
           Inl (projl (syncVersionResults a input !
                  hd (filter (\<lambda>i. isl (syncVersionResults a input ! i)) (recvOrder sched))))"
    if "list_ex isl (syncVersionResults a input)"
    by (rule f(2) [OF that])
  show "SyncDeploymentVersionUserDataFromWorkerDeployment a input sched =
           Inr (maxVersionsReported (map sudName (inSync input)) (syncVersionResults a input))"
    if "\<not> list_ex isl (syncVersionResults a input)"
    by (rule f(3) [OF that])
next
  assume h: "DescribeVersion (deploymentClient a) (namespaceId a) (CurrentVersion rinput) False = Inr info \<and>
    UpdateArgs rinput = Some updateArgs \<and>
    validSchedule (length (TaskQueueInfos info)) rsched"
  note f = SyncUnversionedRamp_fan_out
    [OF h [THEN conjunct1] h [THEN conjunct2, THEN conjunct1] h [THEN conjunct2, THEN conjunct2]]
  show "isl (SyncUnversionedRamp a rinput rsched) =
        list_ex isl (rampResults a (rampTaskQueueSyncs info updateArgs))"
    by (rule f(1))
  show "SyncUnversionedRamp a rinput rsched =
           Inl (projl (rampResults a (rampTaskQueueSyncs info updateArgs) !
                  hd (filter (\<lambda>i. isl (rampResults a (rampTaskQueueSyncs info updateArgs) ! i))
                        (recvOrder rsched))))"
    if "list_ex isl (rampResults a (rampTaskQueueSyncs info updateArgs))"
    by (rule f(2) [OF that])
  show "SyncUnversionedRamp a rinput rsched =
           Inr (maxVersionsReported (map sudName (rampTaskQueueSyncs info updateArgs))
                  (rampResults a (rampTaskQueueSyncs info updateArgs)))"
    if "\<not> list_ex isl (rampResults a (rampTaskQueueSyncs info updateArgs))"
    by (rule f(3) [OF that])
qed

text \<open>
  Two goroutines for the queue \<open>q\<close>, answered with the versions 3 and 4, the second
  taking the lock first: both activities map \<open>q\<close> to 4.
\<close>

theorem sync_fan_out_first_error_or_max_versions_witness:
  "validSchedule (length (inSync exampleSyncRequest)) exampleSchedule \<and>
   \<not> list_ex isl (syncVersionResults countingActivities exampleSyncRequest) \<and>
   versionsReported (map sudName (inSync exampleSyncRequest))
     (syncVersionResults countingActivities exampleSyncRequest) ''q'' = [3, 4] \<and>
   taskQueueMaxVersion
     (SyncDeploymentVersionUserDataFromWorkerDeployment countingActivities exampleSyncRequest
        exampleSchedule) ''q'' = Some 4 \<and>
   UpdateArgs exampleRampArgs =
     Some \<lparr>uaRoutingUpdateTime = None, uaRampingSinceTime = None, uaRampPercentage = ()\<rparr> \<and>
   taskQueueMaxVersion
     (SyncUnversionedRamp countingActivities exampleRampArgs exampleSchedule) ''q'' = Some 4"
proof -
  let ?info = "\<lparr>TaskQueueInfos = [\<lparr>tqiName = ''q'', tqiType = TASK_QUEUE_TYPE_WORKFLOW\<rparr>,
                                   \<lparr>tqiName = ''q'', tqiType = TASK_QUEUE_TYPE_ACTIVITY\<rparr>]\<rparr>"
  let ?args = "\<lparr>uaRoutingUpdateTime = None, uaRampingSinceTime = None, uaRampPercentage = ()\<rparr>"
  have v: "validSchedule (length (inSync exampleSyncRequest)) exampleSchedule"
    by (simp add: validSchedule_def exampleSyncRequest_def exampleSchedule_def Let_def)
  have ok: "\<not> list_ex isl (syncVersionResults countingActivities exampleSyncRequest)"
    by (simp add: syncVersionResults_def syncVersionCall_def countingActivities_def
        exampleSyncRequest_def Let_def)
  have vs: "versionsReported (map sudName (inSync exampleSyncRequest))
     (syncVersionResults countingActivities exampleSyncRequest) ''q'' = [3, 4]"
    by (simp add: versionsReported_def syncVersionResults_def syncVersionCall_def
        countingActivities_def exampleSyncRequest_def Let_def)
  have d: "DescribeVersion (deploymentClient countingActivities) (namespaceId countingActivities)
             (CurrentVersion exampleRampArgs) False = Inr ?info"
    by (simp add: countingActivities_def)
  have u: "UpdateArgs exampleRampArgs = Some ?args"
    by (simp add: exampleRampArgs_def)
  have rv: "validSchedule (length (TaskQueueInfos ?info)) exampleSchedule"
    by (simp add: validSchedule_def exampleSchedule_def Let_def)
  have rok: "\<not> list_ex isl (rampResults countingActivities (rampTaskQueueSyncs ?info ?args))"
    by (simp add: rampResults_def rampCall_def rampTaskQueueSyncs_def countingActivities_def Let_def)
  have rvs: "versionsReported (map sudName (rampTaskQueueSyncs ?info ?args))
     (rampResults countingActivities (rampTaskQueueSyncs ?info ?args)) ''q'' = [3, 4]"
    by (simp add: versionsReported_def rampResults_def rampCall_def rampTaskQueueSyncs_def
        countingActivities_def Let_def)
  note th = sync_fan_out_first_error_or_max_versions
    [of exampleSyncRequest exampleSchedule countingActivities exampleRampArgs ?info ?args exampleSchedule]
  have s: "SyncDeploymentVersionUserDataFromWorkerDeployment countingActivities exampleSyncRequest
        exampleSchedule =
      Inr (maxVersionsReported (map sudName (inSync exampleSyncRequest))
             (syncVersionResults countingActivities exampleSyncRequest))"
    using th v ok by blast
  have r: "SyncUnversionedRamp countingActivities exampleRampArgs exampleSchedule =
      Inr (maxVersionsReported (map sudName (rampTaskQueueSyncs ?info ?args))
             (rampResults countingActivities (rampTaskQueueSyncs ?info ?args)))"
    using th d u rv rok by blast
  have m1: "taskQueueMaxVersion
     (SyncDeploymentVersionUserDataFromWorkerDeployment countingActivities exampleSyncRequest
        exampleSchedule) ''q'' = Some 4"
    by (simp add: s taskQueueMaxVersion_def maxVersionsReported_def vs)
  have m2: "taskQueueMaxVersion
     (SyncUnversionedRamp countingActivities exampleRampArgs exampleSchedule) ''q'' = Some 4"
    by (simp add: r taskQueueMaxVersion_def maxVersionsReported_def rvs)
  from v ok vs m1 u m2 show ?thesis by simp
qed

end
